theory Spec2Isabelle
  imports Main
begin

section \<open>Instance identities\<close>

text \<open>
  The controllers name the instance of ordinal \<open>i\<close> by \<open>k8sutil.IndexToName(i)\<close>.
  The package \<open>k8sutil\<close> is not among the sources at hand, so the function is
  written down from the specification (section 4.1, \<open>identityOf\<close>).
\<close>

definition alphabet :: string where
  "alphabet = ''abcdefghijklmnopqrstuvwxyz''"

definition letter :: "nat \<Rightarrow> char" where
  "letter k = alphabet ! k"

text \<open>
  Modelled from the spec: \<open>k8sutil.IndexToName\<close>, the ordinal-to-name function that
  is missing from the sources. Bijective base-26 over the lowercase letters with no
  leading-zero digit: ordinals 0 to 25 are the single letters, and a larger ordinal
  is the name of \<open>n div 26 - 1\<close> followed by the letter of \<open>n mod 26\<close>.
\<close>

function identityOf :: "nat \<Rightarrow> string" where
  "identityOf n =
     (if n < 26 then [letter n]
      else identityOf (n div 26 - 1) @ [letter (n mod 26)])"
  by pat_completeness auto
termination
  by (relation "measure (\<lambda>n. n)") auto

declare identityOf.simps [simp del]

text \<open>
  The value of a letter sequence read as a bijective base-26 numeral, the digits
  being 1 for \<open>a\<close> up to 26 for \<open>z\<close>.
\<close>

fun digitOf :: "char \<Rightarrow> nat" where
  "digitOf c = Suc (length (takeWhile (\<lambda>d. d \<noteq> c) alphabet))"

fun bijective26 :: "nat \<Rightarrow> string \<Rightarrow> nat" where
  "bijective26 acc [] = acc"
| "bijective26 acc (c # cs) = bijective26 (26 * acc + digitOf c) cs"


section \<open>Go library functions used by the controllers\<close>

text \<open>
  \<open>strings.Join\<close>: the elements with the separator between neighbours.
\<close>

fun strings_Join :: "string list \<Rightarrow> string \<Rightarrow> string" where
  "strings_Join [] sep = []"
| "strings_Join [x] sep = x"
| "strings_Join (x # y # ys) sep = x @ sep @ strings_Join (y # ys) sep"

text \<open>
  \<open>strconv.Itoa\<close>: the decimal rendering of an integer. The integers of the
  sources are never added or multiplied, so they are unbounded integers here.
\<close>

definition digit :: "nat \<Rightarrow> char" where
  "digit k = ''0123456789'' ! k"

function decimal :: "nat \<Rightarrow> string" where
  "decimal n = (if n < 10 then [digit n] else decimal (n div 10) @ [digit (n mod 10)])"
  by pat_completeness auto
termination
  by (relation "measure (\<lambda>n. n)") auto

declare decimal.simps [simp del]

definition Itoa :: "int \<Rightarrow> string" where
  "Itoa i = (if i < 0 then CHR ''-'' # decimal (nat (- i)) else decimal (nat i))"

text \<open>
  \<open>path.Clean\<close>, \<open>path.Join\<close> and \<open>filepath.Dir\<close> (with the separator \<open>/\<close>).
  \<open>Clean\<close> reads the path element by element: empty elements and \<open>.\<close> are
  dropped, \<open>..\<close> removes the element before it when there is one, is dropped at
  the root and is kept at the start of a relative path; the empty result is \<open>.\<close>.
\<close>

fun elements :: "string \<Rightarrow> string \<Rightarrow> string list" where
  "elements cur [] = [cur]"
| "elements cur (c # cs) =
     (if c = CHR ''/'' then cur # elements [] cs else elements (cur @ [c]) cs)"

fun clean_elements :: "bool \<Rightarrow> string list \<Rightarrow> string list \<Rightarrow> string list" where
  "clean_elements rooted out [] = out"
| "clean_elements rooted out (e # es) =
     (if e = [] \<or> e = ''.'' then clean_elements rooted out es
      else if e = ''..'' then
        (if out \<noteq> [] \<and> last out \<noteq> ''..'' then clean_elements rooted (butlast out) es
         else if \<not> rooted then clean_elements rooted (out @ [''..'']) es
         else clean_elements rooted out es)
      else clean_elements rooted (out @ [e]) es)"

definition Clean :: "string \<Rightarrow> string" where
  "Clean p =
     (if p = [] then ''.''
      else let rooted = (hd p = CHR ''/'');
               out = (if rooted then ''/'' else []) @
                     strings_Join (clean_elements rooted [] (elements [] p)) ''/''
           in if out = [] then ''.'' else out)"

definition path_Join :: "string list \<Rightarrow> string" where
  "path_Join elem =
     (case dropWhile (\<lambda>e. e = []) elem of
        [] \<Rightarrow> []
      | es \<Rightarrow> Clean (strings_Join es ''/''))"

definition filepath_Dir :: "string \<Rightarrow> string" where
  "filepath_Dir p = Clean (rev (dropWhile (\<lambda>c. c \<noteq> CHR ''/'') (rev p)))"

section \<open>The Kubernetes objects the controllers build\<close>

text \<open>
  The structs of the Kubernetes API with the fields that the sources fill in. A Go
  pointer that may be nil is an option, a Go map is a finite map.
\<close>

datatype VolumeSource =
    HostPath string
  | EmptyDir
  | ConfigMapSource string "(string \<times> string) list"

record Volume =
  Volume_Name :: string
  Volume_Source :: VolumeSource

record VolumeMount =
  Mount_Name :: string
  MountPath :: string

record EnvVar =
  Env_Name :: string
  Env_Value :: string
  Env_ValueFrom :: "string option"

record SecurityContext =
  Privileged :: "bool option"
  RunAsUser :: "int option"
  RunAsNonRoot :: "bool option"
  ReadOnlyRootFilesystem :: "bool option"

record ResourceRequirements =
  Limits :: "(string \<times> string) list"
  Requests :: "(string \<times> string) list"

record Container =
  Command :: "string list"
  Args :: "string list"
  Container_Name :: string
  Image :: string
  VolumeMounts :: "VolumeMount list"
  Env :: "EnvVar list"
  Resources :: ResourceRequirements
  Container_SecurityContext :: "SecurityContext option"

record OwnerReference =
  Owner_Kind :: string
  Owner_Name :: string
  UID :: string

record ObjectMeta =
  Meta_Name :: string
  Meta_Namespace :: string
  Labels :: "string \<rightharpoonup> string"
  Annotations :: "string \<rightharpoonup> string"
  OwnerReferences :: "OwnerReference list"

record Affinity =
  NodeAffinity :: "string option"
  PodAffinity :: "string option"
  PodAntiAffinity :: "string option"

datatype RestartPolicy = RestartPolicyAlways | RestartPolicyOnFailure | RestartPolicyNever

datatype DNSPolicy = DNSPolicyUnset | DNSClusterFirst | DNSClusterFirstWithHostNet

record PodSpec =
  NodeSelector :: "string \<rightharpoonup> string"
  Pod_RestartPolicy :: RestartPolicy
  ServiceAccountName :: string
  HostNetwork :: bool
  HostPID :: bool
  Pod_DNSPolicy :: DNSPolicy
  InitContainers :: "Container list"
  Containers :: "Container list"
  Volumes :: "Volume list"
  Pod_Affinity :: "Affinity option"
  Pod_Tolerations :: "string list"

record PodTemplateSpec =
  Template_Meta :: ObjectMeta
  Template_Spec :: PodSpec

datatype DeploymentStrategy = DefaultDeploymentStrategy | RecreateDeploymentStrategyType

record Deployment =
  Deployment_Meta :: ObjectMeta
  Strategy :: DeploymentStrategy
  Template :: PodTemplateSpec
  Replicas :: "int option"

record ConfigMap =
  ConfigMap_Meta :: ObjectMeta
  Data :: "string \<rightharpoonup> string"

record ServicePort =
  Port_Name :: string
  Port :: int
  TargetPort :: int
  Protocol :: string

record Service =
  Service_Meta :: ObjectMeta
  Selector :: "string \<rightharpoonup> string"
  Ports :: "ServicePort list"
  ClusterIP :: string

record Placement =
  Placement_NodeAffinity :: "string option"
  Placement_PodAffinity :: "string option"
  Placement_PodAntiAffinity :: "string option"
  Placement_Tolerations :: "string list option"

definition emptyObjectMeta :: ObjectMeta where
  "emptyObjectMeta =
     \<lparr>Meta_Name = [], Meta_Namespace = [], Labels = Map.empty, Annotations = Map.empty,
      OwnerReferences = []\<rparr>"

definition emptyPodSpec :: PodSpec where
  "emptyPodSpec =
     \<lparr>NodeSelector = Map.empty, Pod_RestartPolicy = RestartPolicyAlways,
      ServiceAccountName = [], HostNetwork = False, HostPID = False,
      Pod_DNSPolicy = DNSPolicyUnset, InitContainers = [], Containers = [], Volumes = [],
      Pod_Affinity = None, Pod_Tolerations = []\<rparr>"

text \<open>
  Modelled from the spec: \<open>Placement.ApplyToPodSpec\<close> of package \<open>rookalpha\<close>,
  which is missing from the sources. A placement says where to run the pods (node
  affinity, pod affinity, pod anti-affinity and tolerations, the settings that
  \<open>Documentation/ceph-nfs-crd.md\<close> lists under \<open>placement\<close>); applying it writes
  the settings that are given into the scheduling fields of the pod and leaves the
  containers and volumes alone.
\<close>

definition ApplyToPodSpec :: "Placement \<Rightarrow> PodSpec \<Rightarrow> PodSpec" where
  "ApplyToPodSpec p t =
     (let a0 = (case Pod_Affinity t of
                  None \<Rightarrow> \<lparr>NodeAffinity = None, PodAffinity = None, PodAntiAffinity = None\<rparr>
                | Some a \<Rightarrow> a);
          a1 = (if Placement_NodeAffinity p \<noteq> None
                then a0\<lparr>NodeAffinity := Placement_NodeAffinity p\<rparr> else a0);
          a2 = (if Placement_PodAffinity p \<noteq> None
                then a1\<lparr>PodAffinity := Placement_PodAffinity p\<rparr> else a1);
          a3 = (if Placement_PodAntiAffinity p \<noteq> None
                then a2\<lparr>PodAntiAffinity := Placement_PodAntiAffinity p\<rparr> else a2)
      in t\<lparr>Pod_Affinity := Some a3,
           Pod_Tolerations := (case Placement_Tolerations p of
                                 None \<Rightarrow> Pod_Tolerations t | Some ts \<Rightarrow> ts)\<rparr>)"

section \<open>Errors\<close>

text \<open>
  A Go \<open>error\<close> is either a status of the Kubernetes API (the ones the sources
  test for are \<open>AlreadyExists\<close> and \<open>NotFound\<close>), some other failure of a call, or
  an error made with \<open>fmt.Errorf\<close>: its format string, its plain arguments and
  the error it wraps, if any.
\<close>

datatype error =
    AlreadyExists
  | NotFound
  | OtherError string
  | Errorf string "string list" "error option"

definition IsAlreadyExists :: "error \<Rightarrow> bool" where
  "IsAlreadyExists e = (e = AlreadyExists)"

definition IsNotFound :: "error \<Rightarrow> bool" where
  "IsNotFound e = (e = NotFound)"

section \<open>The gateway resource of package nfs\<close>

text \<open>
  The custom resource that the gateway controller reconciles, with the fields that
  the controller reads.
\<close>

record GaneshaExportSpec =
  Export_Path :: string
  PseudoPath :: string

record GaneshaStoreSpec =
  Store_Name :: string
  Store_Type :: string

record ClientRecoverySpec =
  Pool :: string
  Recovery_Namespace :: string

record GaneshaServerSpec =
  Active :: int
  Server_Placement :: Placement
  Server_Resources :: ResourceRequirements

record NFSGaneshaSpec =
  Store :: GaneshaStoreSpec
  ClientRecovery :: ClientRecoverySpec
  Exports :: "GaneshaExportSpec list"
  Server :: GaneshaServerSpec

record NFSGanesha =
  NFS_Name :: string
  NFS_Namespace :: string
  Spec :: NFSGaneshaSpec

section \<open>Values of the packages that are not among the sources\<close>

text \<open>
  The controllers use constants and helpers of other packages of the repository
  (\<open>k8sutil\<close>, \<open>opmon\<close>, \<open>opspec\<close>, \<open>config\<close>, \<open>rookalpha\<close>) and of other files of
  package \<open>osd\<close>. Their declarations are not at hand; they are parameters of the
  model, one record per package, and every result holds whatever they are (a
  theorem that needs something of them says so).
\<close>

record k8sutil_pkg =
  DataDir :: string
  DataDirVolume :: string
  BinariesMountPath :: string
  AppAttr :: string
  ClusterAttr :: string
  PrivateIPEnvVar :: string
  PublicIPEnvVar :: string
  PathToVolumeName :: "string \<Rightarrow> string"
  PodIPEnvVar :: "string \<Rightarrow> EnvVar"
  ClusterDaemonEnvVars :: "EnvVar list"
  ConfigDirEnvVar :: "string \<Rightarrow> EnvVar"
  ConfigOverrideEnvVar :: EnvVar
  ConfigOverrideVolume :: Volume
  ConfigOverrideMount :: VolumeMount
  MakeRookImage :: "string \<Rightarrow> string"
  SetOwnerRef :: "string \<Rightarrow> ObjectMeta \<Rightarrow> OwnerReference \<Rightarrow> ObjectMeta"

record opmon_pkg =
  ClusterNameEnvVar :: "string \<Rightarrow> EnvVar"
  EndpointEnvVar :: EnvVar
  SecretEnvVar :: EnvVar
  AdminSecretEnvVar :: EnvVar

record opspec_pkg =
  CephVolumeMounts :: "VolumeMount list"
  RookVolumeMounts :: "VolumeMount list"
  PodVolumes :: "string \<Rightarrow> Volume list"
  ConfigInitContainerName :: string

record config_pkg =
  StoreTypeKey :: string
  DatabaseSizeMBKey :: string
  WalSizeMBKey :: string
  JournalSizeMBKey :: string
  MetadataDeviceKey :: string

text \<open>
  Package \<open>osd\<close> outside \<open>spec.go\<close>: the application names, the label key, the
  name of the deployment of an OSD (\<open>fmt.Sprintf(osdAppNameFmt, id)\<close>, a function
  of the id since the format is not at hand) and \<open>IsRemovingNode\<close>.
\<close>

record osd_pkg =
  osd_appName :: string
  prepareAppName :: string
  osdAppNameFmt :: "int \<Rightarrow> string"
  osdLabelKey :: string
  IsRemovingNode :: "string \<Rightarrow> bool"

text \<open>
  Package \<open>nfs\<close> outside the controller file: the text of the gateway's
  configuration, \<open>getGaneshaConfig(spec, name)\<close>.
\<close>

record nfs_pkg =
  getGaneshaConfig :: "NFSGaneshaSpec \<Rightarrow> string \<Rightarrow> string"

record packages =
  k8sutil :: k8sutil_pkg
  opmon :: opmon_pkg
  opspec :: opspec_pkg
  config :: config_pkg
  osd :: osd_pkg
  nfs :: nfs_pkg
  LocationEnvVar :: "string \<Rightarrow> EnvVar"
  LabelHostname :: string
  Getenv :: "string \<Rightarrow> string"

section \<open>Package osd: the pods of the storage daemons (spec.go)\<close>

record Device =
  Device_Name :: string

record Directory =
  Path :: string

text \<open>
  Modelled from the spec: the selection of package \<open>rookalpha\<close> with its
  use-all-devices flag, a pointer to a boolean that counts as set only when it is
  there and true (\<open>GetUseAllDevices\<close>), its device filter and its directories.
\<close>

record Selection =
  UseAllDevices :: "bool option"
  DeviceFilter :: string
  Directories :: "Directory list"

definition GetUseAllDevices :: "Selection \<Rightarrow> bool" where
  "GetUseAllDevices s = (UseAllDevices s = Some True)"

record StoreConfig =
  StoreType :: string
  WalSizeMB :: int
  DatabaseSizeMB :: int
  JournalSizeMB :: int

record OSDInfo =
  ID :: int
  DataPath :: string
  Config :: string
  OSD_Cluster :: string
  KeyringPath :: string
  OSD_UUID :: string
  Journal :: string
  IsFileStore :: bool
  IsDirectory :: bool
  DevicePartUUID :: string

record Cluster =
  Namespace :: string
  dataDirHostPath :: string
  Cluster_HostNetwork :: bool
  serviceAccount :: string
  rookVersion :: string
  cephVersion_Image :: string
  ownerRef :: OwnerReference
  placement :: Placement

definition dataDirsEnvVarName :: string where
  "dataDirsEnvVarName = ''ROOK_DATA_DIRECTORIES''"

definition osdStoreEnvVarName :: string where
  "osdStoreEnvVarName = ''ROOK_OSD_STORE''"

definition osdDatabaseSizeEnvVarName :: string where
  "osdDatabaseSizeEnvVarName = ''ROOK_OSD_DATABASE_SIZE''"

definition osdWalSizeEnvVarName :: string where
  "osdWalSizeEnvVarName = ''ROOK_OSD_WAL_SIZE''"

definition osdJournalSizeEnvVarName :: string where
  "osdJournalSizeEnvVarName = ''ROOK_OSD_JOURNAL_SIZE''"

definition osdMetadataDeviceEnvVarName :: string where
  "osdMetadataDeviceEnvVarName = ''ROOK_METADATA_DEVICE''"

definition rookBinariesMountPath :: string where
  "rookBinariesMountPath = ''/rook''"

definition rookBinariesVolumeName :: string where
  "rookBinariesVolumeName = ''rook-binaries''"

definition envVar :: "string \<Rightarrow> string \<Rightarrow> EnvVar" where
  "envVar name val = \<lparr>Env_Name = name, Env_Value = val, Env_ValueFrom = None\<rparr>"

definition nodeNameEnvVar :: "string \<Rightarrow> EnvVar" where
  "nodeNameEnvVar name = envVar ''ROOK_NODE_NAME'' name"

definition dataDevicesEnvVar :: "string \<Rightarrow> EnvVar" where
  "dataDevicesEnvVar dataDevices = envVar ''ROOK_DATA_DEVICES'' dataDevices"

definition deviceFilterEnvVar :: "string \<Rightarrow> EnvVar" where
  "deviceFilterEnvVar filter' = envVar ''ROOK_DATA_DEVICE_FILTER'' filter'"

definition metadataDeviceEnvVar :: "string \<Rightarrow> EnvVar" where
  "metadataDeviceEnvVar metadataDevice = envVar osdMetadataDeviceEnvVarName metadataDevice"

definition dataDirectoriesEnvVar :: "string \<Rightarrow> EnvVar" where
  "dataDirectoriesEnvVar dataDirectories = envVar dataDirsEnvVarName dataDirectories"

definition osdStoreEnvVar :: "string \<Rightarrow> EnvVar" where
  "osdStoreEnvVar osdStore = envVar osdStoreEnvVarName osdStore"

definition osdDatabaseSizeEnvVar :: "int \<Rightarrow> EnvVar" where
  "osdDatabaseSizeEnvVar databaseSize = envVar osdDatabaseSizeEnvVarName (Itoa databaseSize)"

definition osdWalSizeEnvVar :: "int \<Rightarrow> EnvVar" where
  "osdWalSizeEnvVar walSize = envVar osdWalSizeEnvVarName (Itoa walSize)"

definition osdJournalSizeEnvVar :: "int \<Rightarrow> EnvVar" where
  "osdJournalSizeEnvVar journalSize = envVar osdJournalSizeEnvVarName (Itoa journalSize)"

subsection \<open>getConfigEnvVars\<close>

definition getConfigEnvVars ::
  "packages \<Rightarrow> Cluster \<Rightarrow> StoreConfig \<Rightarrow> string \<Rightarrow> string \<Rightarrow> string \<Rightarrow> EnvVar list" where
  "getConfigEnvVars X c storeConfig dataDir nodeName location =
     (let envVars =
            [nodeNameEnvVar nodeName,
             envVar ''ROOK_CLUSTER_ID'' (UID (ownerRef c)),
             PodIPEnvVar (k8sutil X) (PrivateIPEnvVar (k8sutil X)),
             PodIPEnvVar (k8sutil X) (PublicIPEnvVar (k8sutil X)),
             ClusterNameEnvVar (opmon X) (Namespace c),
             EndpointEnvVar (opmon X),
             SecretEnvVar (opmon X),
             AdminSecretEnvVar (opmon X),
             ConfigDirEnvVar (k8sutil X) dataDir,
             ConfigOverrideEnvVar (k8sutil X)];
          envVars = (if StoreType storeConfig \<noteq> []
                     then envVars @ [osdStoreEnvVar (StoreType storeConfig)] else envVars);
          envVars = (if DatabaseSizeMB storeConfig \<noteq> 0
                     then envVars @ [osdDatabaseSizeEnvVar (DatabaseSizeMB storeConfig)]
                     else envVars);
          envVars = (if WalSizeMB storeConfig \<noteq> 0
                     then envVars @ [osdWalSizeEnvVar (WalSizeMB storeConfig)] else envVars);
          envVars = (if JournalSizeMB storeConfig \<noteq> 0
                     then envVars @ [osdJournalSizeEnvVar (JournalSizeMB storeConfig)]
                     else envVars);
          envVars = (if location \<noteq> []
                     then envVars @ [LocationEnvVar X location] else envVars)
      in envVars)"

subsection \<open>getCopyBinariesContainer\<close>

definition noResources :: ResourceRequirements where
  "noResources = \<lparr>Limits = [], Requests = []\<rparr>"

definition getCopyBinariesContainer :: "packages \<Rightarrow> Cluster \<Rightarrow> Volume \<times> Container" where
  "getCopyBinariesContainer X c =
     (let volume = \<lparr>Volume_Name = rookBinariesVolumeName, Volume_Source = EmptyDir\<rparr>;
          mount = \<lparr>Mount_Name = rookBinariesVolumeName, MountPath = rookBinariesMountPath\<rparr>
      in (volume,
          \<lparr>Command = [],
           Args = [''ceph'', ''osd'', ''copybins''],
           Container_Name = ''copy-bins'',
           Image = MakeRookImage (k8sutil X) (rookVersion c),
           VolumeMounts = [mount],
           Env = [envVar ''ROOK_PATH'' rookBinariesMountPath],
           Resources = noResources,
           Container_SecurityContext = None\<rparr>))"

subsection \<open>provisionOSDContainer\<close>

definition provisionOSDContainer ::
  "packages \<Rightarrow> Cluster \<Rightarrow> Device list \<Rightarrow> Selection \<Rightarrow> ResourceRequirements \<Rightarrow> StoreConfig \<Rightarrow>
   string \<Rightarrow> string \<Rightarrow> string \<Rightarrow> VolumeMount \<Rightarrow> Container" where
  "provisionOSDContainer X c devices selection resources storeConfig metadataDevice nodeName
     location copyBinariesMount =
     (let envVars = getConfigEnvVars X c storeConfig (DataDir (k8sutil X)) nodeName location;
          devMountNeeded = False;
          (envVars, devMountNeeded) =
             (if length devices > 0 then
                (let deviceNames = map Device_Name devices
                 in (envVars @ [dataDevicesEnvVar (strings_Join deviceNames '','')], True))
              else if DeviceFilter selection \<noteq> [] then
                (envVars @ [deviceFilterEnvVar (DeviceFilter selection)], True)
              else if GetUseAllDevices selection then
                (envVars @ [deviceFilterEnvVar ''all''], True)
              else (envVars, devMountNeeded));
          (envVars, devMountNeeded) =
             (if metadataDevice \<noteq> [] then
                (envVars @ [metadataDeviceEnvVar metadataDevice], True)
              else (envVars, devMountNeeded));
          volumeMounts = CephVolumeMounts (opspec X) @ [copyBinariesMount];
          volumeMounts =
             (if devMountNeeded then
                volumeMounts @
                  [\<lparr>Mount_Name = ''devices'', MountPath = ''/dev''\<rparr>,
                   \<lparr>Mount_Name = ''udev'', MountPath = ''/run/udev''\<rparr>]
              else volumeMounts);
          (volumeMounts, envVars) =
             (if length (Directories selection) > 0 then
                (let dirPaths = map Path (Directories selection);
                     volumeMounts = volumeMounts @
                       map (\<lambda>dpath. \<lparr>Mount_Name = PathToVolumeName (k8sutil X) dpath,
                                      MountPath = dpath\<rparr>) dirPaths
                 in (volumeMounts,
                     if \<not> IsRemovingNode (osd X) (DeviceFilter selection)
                     then envVars @ [dataDirectoriesEnvVar (strings_Join dirPaths '','')]
                     else envVars))
              else (volumeMounts, envVars));
          privileged =
             (devMountNeeded \<or> Getenv X ''ROOK_HOSTPATH_REQUIRES_PRIVILEGED'' = ''true'')
      in \<lparr>Command = [path_Join [rookBinariesMountPath, ''tini'']],
          Args = [''--'', path_Join [rookBinariesMountPath, ''rook''],
                  ''ceph'', ''osd'', ''provision''],
          Container_Name = ''provision'',
          Image = cephVersion_Image c,
          VolumeMounts = volumeMounts,
          Env = envVars,
          Resources = resources,
          Container_SecurityContext =
            Some \<lparr>Privileged = Some privileged, RunAsUser = Some 0,
                  RunAsNonRoot = Some False, ReadOnlyRootFilesystem = Some False\<rparr>\<rparr>)"

subsection \<open>provisionPodTemplateSpec\<close>

definition provisionPodTemplateSpec ::
  "packages \<Rightarrow> Cluster \<Rightarrow> Device list \<Rightarrow> Selection \<Rightarrow> ResourceRequirements \<Rightarrow> StoreConfig \<Rightarrow>
   string \<Rightarrow> string \<Rightarrow> string \<Rightarrow> RestartPolicy \<Rightarrow> error + PodTemplateSpec" where
  "provisionPodTemplateSpec X c devices selection resources storeConfig metadataDevice nodeName
     location restart =
     (let (copyBinariesVolume, copyBinariesContainer) = getCopyBinariesContainer X c;
          volumes = PodVolumes (opspec X) (dataDirHostPath c) @ [copyBinariesVolume];
          volumes =
             (if length devices > 0 \<or> DeviceFilter selection \<noteq> [] \<or>
                 GetUseAllDevices selection \<or> metadataDevice \<noteq> [] then
                volumes @
                  [\<lparr>Volume_Name = ''devices'', Volume_Source = HostPath ''/dev''\<rparr>,
                   \<lparr>Volume_Name = ''udev'', Volume_Source = HostPath ''/run/udev''\<rparr>]
              else volumes);
          volumes = volumes @
             map (\<lambda>d. \<lparr>Volume_Name = PathToVolumeName (k8sutil X) (Path d),
                         Volume_Source = HostPath (Path d)\<rparr>) (Directories selection)
      in if length volumes = 0 then Inl (Errorf ''empty volumes'' [] None)
         else
           (let podSpec = emptyPodSpec
                  \<lparr>ServiceAccountName := serviceAccount c,
                   Containers :=
                     [copyBinariesContainer,
                      provisionOSDContainer X c devices selection resources storeConfig
                        metadataDevice nodeName location (VolumeMounts copyBinariesContainer ! 0)],
                   Pod_RestartPolicy := restart,
                   Volumes := volumes,
                   HostNetwork := Cluster_HostNetwork c\<rparr>;
                podSpec = (if Cluster_HostNetwork c
                           then podSpec\<lparr>Pod_DNSPolicy := DNSClusterFirstWithHostNet\<rparr>
                           else podSpec);
                podSpec = ApplyToPodSpec (placement c) podSpec
            in Inr \<lparr>Template_Meta = emptyObjectMeta
                       \<lparr>Meta_Name := osd_appName (osd X),
                        Labels := [AppAttr (k8sutil X) \<mapsto> prepareAppName (osd X),
                                   ClusterAttr (k8sutil X) \<mapsto> Namespace c],
                        Annotations := Map.empty\<rparr>,
                     Template_Spec = podSpec\<rparr>))"

subsection \<open>makeDeployment\<close>

definition makeDeployment ::
  "packages \<Rightarrow> Cluster \<Rightarrow> string \<Rightarrow> Device list \<Rightarrow> Selection \<Rightarrow> ResourceRequirements \<Rightarrow>
   StoreConfig \<Rightarrow> string \<Rightarrow> string \<Rightarrow> OSDInfo \<Rightarrow> error + Deployment" where
  "makeDeployment X c nodeName devices selection resources storeConfig metadataDevice location
     osdInfo =
     (let replicaCount = 1;
          volumeMounts = CephVolumeMounts (opspec X);
          configVolumeMounts = RookVolumeMounts (opspec X);
          volumes = PodVolumes (opspec X) (dataDirHostPath c);
          (dataDir, volumes, configVolumeMounts, volumeMounts) =
             (if IsDirectory osdInfo then
                (let parentDir = filepath_Dir (DataPath osdInfo)
                 in if parentDir \<noteq> DataDir (k8sutil X) then
                      (let volumeName = PathToVolumeName (k8sutil X) parentDir
                       in (parentDir,
                           volumes @ [\<lparr>Volume_Name = volumeName,
                                        Volume_Source = HostPath parentDir\<rparr>],
                           configVolumeMounts @
                             [\<lparr>Mount_Name = volumeName, MountPath = parentDir\<rparr>],
                           volumeMounts @
                             [\<lparr>Mount_Name = volumeName, MountPath = parentDir\<rparr>]))
                    else (parentDir, volumes, configVolumeMounts, volumeMounts))
              else
                (DataDir (k8sutil X),
                 volumes @ [\<lparr>Volume_Name = ''devices'', Volume_Source = HostPath ''/dev''\<rparr>],
                 configVolumeMounts,
                 volumeMounts @ [\<lparr>Mount_Name = ''devices'', MountPath = ''/dev''\<rparr>]))
      in if length volumes = 0 then Inl (Errorf ''empty volumes'' [] None)
         else
           (let osdID = Itoa (ID osdInfo);
                tiniEnvVar = envVar ''TINI_SUBREAPER'' [];
                envVars =
                  [nodeNameEnvVar nodeName,
                   PodIPEnvVar (k8sutil X) (PrivateIPEnvVar (k8sutil X)),
                   PodIPEnvVar (k8sutil X) (PublicIPEnvVar (k8sutil X)),
                   tiniEnvVar];
                envVars = envVars @ ClusterDaemonEnvVars (k8sutil X);
                configEnvVars =
                  getConfigEnvVars X c storeConfig dataDir nodeName location @
                    [tiniEnvVar, envVar ''ROOK_OSD_ID'' osdID];
                commonArgs =
                  [''--foreground'',
                   ''--id'', osdID,
                   ''--conf'', Config osdInfo,
                   ''--osd-data'', DataPath osdInfo,
                   ''--keyring'', KeyringPath osdInfo,
                   ''--cluster'', OSD_Cluster osdInfo,
                   ''--osd-uuid'', OSD_UUID osdInfo];
                commonArgs =
                  (if IsFileStore osdInfo
                   then commonArgs @ [''--osd-journal='' @ Journal osdInfo] else commonArgs);
                (command, args, copyBinariesContainer, volumes, volumeMounts, configEnvVars,
                 configVolumeMounts) =
                  (if \<not> IsDirectory osdInfo \<and> IsFileStore osdInfo then
                     (let sourcePath =
                            path_Join [''/dev/disk/by-partuuid'', DevicePartUUID osdInfo];
                          (copyBinariesVolume, copyBinariesContainer) =
                            getCopyBinariesContainer X c
                      in ([path_Join [BinariesMountPath (k8sutil X), ''tini'']],
                          [''--'', path_Join [BinariesMountPath (k8sutil X), ''rook''],
                           ''ceph'', ''osd'', ''filestore-device'',
                           ''--source-path'', sourcePath,
                           ''--mount-path'', DataPath osdInfo,
                           ''--''] @ commonArgs,
                          Some copyBinariesContainer,
                          volumes @ [copyBinariesVolume],
                          volumeMounts @ [VolumeMounts copyBinariesContainer ! 0],
                          configEnvVars @ [Env copyBinariesContainer ! 0],
                          configVolumeMounts @ [VolumeMounts copyBinariesContainer ! 0]))
                   else
                     ([''ceph-osd''], commonArgs, None, volumes, volumeMounts, configEnvVars,
                      configVolumeMounts));
                securityContext =
                  \<lparr>Privileged = Some True, RunAsUser = Some 0, RunAsNonRoot = None,
                   ReadOnlyRootFilesystem = Some False\<rparr>;
                dnsPolicy = (if Cluster_HostNetwork c then DNSClusterFirstWithHostNet
                             else DNSClusterFirst);
                labels = [AppAttr (k8sutil X) \<mapsto> osd_appName (osd X),
                          ClusterAttr (k8sutil X) \<mapsto> Namespace c,
                          osdLabelKey (osd X) \<mapsto> Itoa (ID osdInfo)];
                podSpec = emptyPodSpec
                  \<lparr>NodeSelector := [LabelHostname X \<mapsto> nodeName],
                   Pod_RestartPolicy := RestartPolicyAlways,
                   ServiceAccountName := serviceAccount c,
                   HostNetwork := Cluster_HostNetwork c,
                   HostPID := True,
                   Pod_DNSPolicy := dnsPolicy,
                   InitContainers :=
                     [\<lparr>Command = [],
                       Args = [''ceph'', ''osd'', ''init''],
                       Container_Name = ConfigInitContainerName (opspec X),
                       Image = MakeRookImage (k8sutil X) (rookVersion c),
                       VolumeMounts = configVolumeMounts,
                       Env = configEnvVars,
                       Resources = noResources,
                       Container_SecurityContext = Some securityContext\<rparr>],
                   Containers :=
                     [\<lparr>Command = command,
                       Args = args,
                       Container_Name = ''osd'',
                       Image = cephVersion_Image c,
                       VolumeMounts = volumeMounts,
                       Env = envVars,
                       Resources = resources,
                       Container_SecurityContext = Some securityContext\<rparr>],
                   Volumes := volumes\<rparr>;
                podSpec =
                  (case copyBinariesContainer of
                     Some cbc \<Rightarrow> podSpec\<lparr>InitContainers := InitContainers podSpec @ [cbc]\<rparr>
                   | None \<Rightarrow> podSpec);
                meta = SetOwnerRef (k8sutil X) (Namespace c)
                  (emptyObjectMeta
                     \<lparr>Meta_Name := osdAppNameFmt (osd X) (ID osdInfo),
                      Meta_Namespace := Namespace c,
                      Labels := labels\<rparr>)
                  (ownerRef c);
                podSpec = ApplyToPodSpec (placement c) podSpec
            in Inr \<lparr>Deployment_Meta = meta,
                     Strategy = RecreateDeploymentStrategyType,
                     Template =
                       \<lparr>Template_Meta = emptyObjectMeta
                          \<lparr>Meta_Name := osd_appName (osd X),
                           Labels := labels,
                           Annotations := Map.empty\<rparr>,
                        Template_Spec = podSpec\<rparr>,
                     Replicas = Some replicaCount\<rparr>))"

subsection \<open>getConfigFromContainer\<close>

definition configFromEnvVar ::
  "packages \<Rightarrow> (string \<rightharpoonup> string) \<Rightarrow> EnvVar \<Rightarrow> (string \<rightharpoonup> string)" where
  "configFromEnvVar X cfg ev =
     (if Env_Name ev = osdStoreEnvVarName then cfg(StoreTypeKey (config X) \<mapsto> Env_Value ev)
      else if Env_Name ev = osdDatabaseSizeEnvVarName then
        cfg(DatabaseSizeMBKey (config X) \<mapsto> Env_Value ev)
      else if Env_Name ev = osdWalSizeEnvVarName then
        cfg(WalSizeMBKey (config X) \<mapsto> Env_Value ev)
      else if Env_Name ev = osdJournalSizeEnvVarName then
        cfg(JournalSizeMBKey (config X) \<mapsto> Env_Value ev)
      else if Env_Name ev = osdMetadataDeviceEnvVarName then
        cfg(MetadataDeviceKey (config X) \<mapsto> Env_Value ev)
      else cfg)"

definition getConfigFromContainer :: "packages \<Rightarrow> Container \<Rightarrow> (string \<rightharpoonup> string)" where
  "getConfigFromContainer X osdContainer =
     foldl (configFromEnvVar X) Map.empty (Env osdContainer)"

subsection \<open>Reading a built deployment\<close>

text \<open>
  The pod of a deployment, its daemon container (the only container of the pod)
  and the arguments that \<open>makeDeployment\<close> calls \<open>commonArgs\<close>.
\<close>

definition podOf :: "Deployment \<Rightarrow> PodSpec" where
  "podOf d = Template_Spec (Template d)"

definition daemonOf :: "Deployment \<Rightarrow> Container" where
  "daemonOf d = Containers (podOf d) ! 0"

definition configInitOf :: "Deployment \<Rightarrow> Container" where
  "configInitOf d = InitContainers (podOf d) ! 0"

definition commonArgs :: "OSDInfo \<Rightarrow> string list" where
  "commonArgs osdInfo =
     [''--foreground'',
      ''--id'', Itoa (ID osdInfo),
      ''--conf'', Config osdInfo,
      ''--osd-data'', DataPath osdInfo,
      ''--keyring'', KeyringPath osdInfo,
      ''--cluster'', OSD_Cluster osdInfo,
      ''--osd-uuid'', OSD_UUID osdInfo] @
     (if IsFileStore osdInfo then [''--osd-journal='' @ Journal osdInfo] else [])"

definition emptyVolumes :: error where
  "emptyVolumes = Errorf ''empty volumes'' [] None"

text \<open>
  The environment variable of the device selector that \<open>provisionOSDContainer\<close>
  honours, and the mount and the volume of a directory.
\<close>

definition deviceSelectorEnvVars :: "Device list \<Rightarrow> Selection \<Rightarrow> EnvVar list" where
  "deviceSelectorEnvVars devices selection =
     (if devices \<noteq> [] then [dataDevicesEnvVar (strings_Join (map Device_Name devices) '','')]
      else if DeviceFilter selection \<noteq> [] then [deviceFilterEnvVar (DeviceFilter selection)]
      else if GetUseAllDevices selection then [deviceFilterEnvVar ''all'']
      else [])"

definition directoryMount :: "packages \<Rightarrow> Directory \<Rightarrow> VolumeMount" where
  "directoryMount X d =
     \<lparr>Mount_Name = PathToVolumeName (k8sutil X) (Path d), MountPath = Path d\<rparr>"

definition directoryVolume :: "packages \<Rightarrow> Directory \<Rightarrow> Volume" where
  "directoryVolume X d =
     \<lparr>Volume_Name = PathToVolumeName (k8sutil X) (Path d), Volume_Source = HostPath (Path d)\<rparr>"

text \<open>
  For the round trip of the store configuration through the environment: the five
  names that \<open>getConfigFromContainer\<close> looks for, the variables of the provision
  container that other packages make, the five keys of the configuration, and the
  entries that were supplied (each one only when it is not empty or zero).
\<close>

definition configEnvVarNames :: "string list" where
  "configEnvVarNames =
     [osdStoreEnvVarName, osdDatabaseSizeEnvVarName, osdWalSizeEnvVarName,
      osdJournalSizeEnvVarName, osdMetadataDeviceEnvVarName]"

definition foreignEnvVars :: "packages \<Rightarrow> Cluster \<Rightarrow> string \<Rightarrow> EnvVar list" where
  "foreignEnvVars X c location =
     [PodIPEnvVar (k8sutil X) (PrivateIPEnvVar (k8sutil X)),
      PodIPEnvVar (k8sutil X) (PublicIPEnvVar (k8sutil X)),
      ClusterNameEnvVar (opmon X) (Namespace c),
      EndpointEnvVar (opmon X),
      SecretEnvVar (opmon X),
      AdminSecretEnvVar (opmon X),
      ConfigDirEnvVar (k8sutil X) (DataDir (k8sutil X)),
      ConfigOverrideEnvVar (k8sutil X)] @
     (if location \<noteq> [] then [LocationEnvVar X location] else [])"

definition configKeys :: "packages \<Rightarrow> string list" where
  "configKeys X =
     [StoreTypeKey (config X), DatabaseSizeMBKey (config X), WalSizeMBKey (config X),
      JournalSizeMBKey (config X), MetadataDeviceKey (config X)]"

definition storeConfigEntries ::
  "packages \<Rightarrow> StoreConfig \<Rightarrow> string \<Rightarrow> (string \<rightharpoonup> string)" where
  "storeConfigEntries X storeConfig metadataDevice =
     (let cfg = Map.empty;
          cfg = (if StoreType storeConfig \<noteq> []
                 then cfg(StoreTypeKey (config X) \<mapsto> StoreType storeConfig) else cfg);
          cfg = (if DatabaseSizeMB storeConfig \<noteq> 0
                 then cfg(DatabaseSizeMBKey (config X) \<mapsto> Itoa (DatabaseSizeMB storeConfig))
                 else cfg);
          cfg = (if WalSizeMB storeConfig \<noteq> 0
                 then cfg(WalSizeMBKey (config X) \<mapsto> Itoa (WalSizeMB storeConfig)) else cfg);
          cfg = (if JournalSizeMB storeConfig \<noteq> 0
                 then cfg(JournalSizeMBKey (config X) \<mapsto> Itoa (JournalSizeMB storeConfig))
                 else cfg);
          cfg = (if metadataDevice \<noteq> []
                 then cfg(MetadataDeviceKey (config X) \<mapsto> metadataDevice) else cfg)
      in cfg)"

section \<open>Package nfs: the gateway controller\<close>

subsection \<open>The substrate\<close>

text \<open>
  The controller acts on the cluster through the Kubernetes client and runs the
  recovery tool \<open>ganesha-rados-grace\<close> through the executor. Each such call, and
  each line it logs, is an event; the trace is the list of events so far, oldest
  first. What a call returns is up to the substrate: any function of the trace so
  far and of the call, so every sequence of answers is covered. \<open>createdService\<close>
  is the service object that the API server returns when it has created one.
  \<open>DeleteDeployment\<close> stands for the call of \<open>k8sutil.DeleteDeployment\<close>, whose
  result the controller does not look at.
\<close>

datatype event =
    ExecuteCommand string "string list"
  | CreateConfigMap string ConfigMap
  | UpdateConfigMap string ConfigMap
  | CreateDeployment string Deployment
  | CreateService string Service
  | DeleteDeployment string string
  | DeleteService string string
  | Infof string "string list"
  | Warningf string "string list" "error option"

record substrate =
  answer :: "event list \<Rightarrow> event \<Rightarrow> error option"
  createdService :: "event list \<Rightarrow> Service \<Rightarrow> Service"

definition call :: "substrate \<Rightarrow> event \<Rightarrow> event list \<Rightarrow> error option \<times> event list" where
  "call w ev tr = (answer w tr ev, tr @ [ev])"

definition logf :: "event \<Rightarrow> event list \<Rightarrow> event list" where
  "logf ev tr = tr @ [ev]"

record GaneshaController =
  rookImage :: string
  hostNetwork :: bool
  controller_ownerRef :: OwnerReference

definition nfs_appName :: string where
  "nfs_appName = ''rook-ceph-ganesha''"

definition ganeshaConfigVolume :: string where
  "ganeshaConfigVolume = ''ganesha-config''"

definition ganeshaPort :: int where
  "ganeshaPort = 2049"

subsection \<open>Names and labels\<close>

definition instanceName :: "NFSGanesha \<Rightarrow> string \<Rightarrow> string" where
  "instanceName n name = nfs_appName @ ''-'' @ NFS_Name n @ ''-'' @ name"

definition getLabels :: "packages \<Rightarrow> NFSGanesha \<Rightarrow> string \<Rightarrow> (string \<rightharpoonup> string)" where
  "getLabels X n name =
     [AppAttr (k8sutil X) \<mapsto> nfs_appName,
      ClusterAttr (k8sutil X) \<mapsto> NFS_Namespace n,
      ''nfs_ganesha'' \<mapsto> NFS_Name n,
      ''instance'' \<mapsto> name]"

subsection \<open>The recovery database\<close>

definition graceCommand :: "NFSGanesha \<Rightarrow> string \<Rightarrow> string \<Rightarrow> event" where
  "graceCommand n action name =
     ExecuteCommand ''ganesha-rados-grace''
       [''--pool'', Pool (ClientRecovery (Spec n)),
        ''--ns'', Recovery_Namespace (ClientRecovery (Spec n)), action, name]"

definition addServerToDatabase ::
  "NFSGanesha \<Rightarrow> string \<Rightarrow> substrate \<Rightarrow> event list \<Rightarrow> error option \<times> event list" where
  "addServerToDatabase n name w tr =
     (let tr = logf (Infof ''Adding ganesha %s to grace db'' [name]) tr
      in call w (graceCommand n ''add'' name) tr)"

definition removeServerFromDatabase ::
  "NFSGanesha \<Rightarrow> string \<Rightarrow> substrate \<Rightarrow> event list \<Rightarrow> error option \<times> event list" where
  "removeServerFromDatabase n name w tr =
     (let tr = logf (Infof ''Removing ganesha %s from grace db'' [name]) tr
      in call w (graceCommand n ''remove'' name) tr)"

subsection \<open>generateConfig\<close>

definition ganeshaConfigMap :: "packages \<Rightarrow> NFSGanesha \<Rightarrow> string \<Rightarrow> ConfigMap" where
  "ganeshaConfigMap X n name =
     \<lparr>ConfigMap_Meta = emptyObjectMeta
        \<lparr>Meta_Name := nfs_appName @ ''-'' @ NFS_Name n @ ''-'' @ name,
         Meta_Namespace := NFS_Namespace n,
         Labels := getLabels X n name\<rparr>,
      Data = [''config'' \<mapsto> getGaneshaConfig (nfs X) (Spec n) name]\<rparr>"

definition generateConfig ::
  "packages \<Rightarrow> NFSGanesha \<Rightarrow> string \<Rightarrow> substrate \<Rightarrow> event list \<Rightarrow>
   (error + string) \<times> event list" where
  "generateConfig X n name w tr =
     (let configMap = ganeshaConfigMap X n name
      in case call w (CreateConfigMap (NFS_Namespace n) configMap) tr of
           (Some err, tr) \<Rightarrow>
             if IsAlreadyExists err then
               (case call w (UpdateConfigMap (NFS_Namespace n) configMap) tr of
                  (Some err, tr) \<Rightarrow>
                    (Inl (Errorf ''failed to update ganesha config. %+v'' [] (Some err)), tr)
                | (None, tr) \<Rightarrow> (Inr (Meta_Name (ConfigMap_Meta configMap)), tr))
             else (Inl (Errorf ''failed to create ganesha config. %+v'' [] (Some err)), tr)
         | (None, tr) \<Rightarrow> (Inr (Meta_Name (ConfigMap_Meta configMap)), tr))"

subsection \<open>createGaneshaService\<close>

definition ganeshaService :: "packages \<Rightarrow> GaneshaController \<Rightarrow> NFSGanesha \<Rightarrow> string \<Rightarrow> Service" where
  "ganeshaService X c n name =
     (let labels = getLabels X n name;
          svc = \<lparr>Service_Meta = emptyObjectMeta
                   \<lparr>Meta_Name := instanceName n name,
                    Meta_Namespace := NFS_Namespace n,
                    Labels := labels,
                    OwnerReferences := [controller_ownerRef c]\<rparr>,
                 Selector = labels,
                 Ports = [\<lparr>Port_Name = ''nfs'', Port = ganeshaPort, TargetPort = ganeshaPort,
                           Protocol = ''TCP''\<rparr>],
                 ClusterIP = []\<rparr>
      in if hostNetwork c then svc\<lparr>ClusterIP := ''None''\<rparr> else svc)"

definition createGaneshaService ::
  "packages \<Rightarrow> GaneshaController \<Rightarrow> NFSGanesha \<Rightarrow> string \<Rightarrow> substrate \<Rightarrow> event list \<Rightarrow>
   error option \<times> event list" where
  "createGaneshaService X c n name w tr =
     (let svc = ganeshaService X c n name
      in case call w (CreateService (NFS_Namespace n) svc) tr of
           (Some err, tr') \<Rightarrow>
             if \<not> IsAlreadyExists err then
               (Some (Errorf ''failed to create ganesha service. %+v'' [] (Some err)), tr')
             else (None, logf (Infof ''ganesha service already created'' []) tr')
         | (None, tr') \<Rightarrow>
             (None, logf (Infof ''ganesha service running at %s:%d''
                            [ClusterIP (createdService w tr svc), Itoa ganeshaPort]) tr'))"

subsection \<open>makeDeployment and ganeshaContainer of package nfs\<close>

definition ganeshaContainer ::
  "packages \<Rightarrow> GaneshaController \<Rightarrow> NFSGanesha \<Rightarrow> string \<Rightarrow> Container" where
  "ganeshaContainer X c n name =
     \<lparr>Command = [],
      Args = [''ceph'', ''ganesha''],
      Container_Name = ''nfs-ganesha'',
      Image = rookImage c,
      VolumeMounts =
        [\<lparr>Mount_Name = DataDirVolume (k8sutil X), MountPath = DataDir (k8sutil X)\<rparr>,
         \<lparr>Mount_Name = ganeshaConfigVolume, MountPath = ''/etc/ganesha''\<rparr>,
         ConfigOverrideMount (k8sutil X)],
      Env =
        [\<lparr>Env_Name = ''ROOK_POD_NAME'', Env_Value = [], Env_ValueFrom = Some ''metadata.name''\<rparr>,
         \<lparr>Env_Name = ''ROOK_GANESHA_NAME'', Env_Value = name, Env_ValueFrom = None\<rparr>,
         ClusterNameEnvVar (opmon X) (NFS_Namespace n),
         EndpointEnvVar (opmon X),
         AdminSecretEnvVar (opmon X),
         PodIPEnvVar (k8sutil X) (PrivateIPEnvVar (k8sutil X)),
         PodIPEnvVar (k8sutil X) (PublicIPEnvVar (k8sutil X)),
         ConfigOverrideEnvVar (k8sutil X)],
      Resources = Server_Resources (Server (Spec n)),
      Container_SecurityContext = None\<rparr>"

definition nfs_makeDeployment ::
  "packages \<Rightarrow> GaneshaController \<Rightarrow> NFSGanesha \<Rightarrow> string \<Rightarrow> string \<Rightarrow> Deployment" where
  "nfs_makeDeployment X c n name configName =
     (let meta = emptyObjectMeta
            \<lparr>Meta_Name := instanceName n name,
             Meta_Namespace := NFS_Namespace n,
             OwnerReferences := [controller_ownerRef c]\<rparr>;
          configMapSource = ConfigMapSource configName [(''config'', ''ganesha.conf'')];
          podSpec = emptyPodSpec
            \<lparr>Containers := [ganeshaContainer X c n name],
             Pod_RestartPolicy := RestartPolicyAlways,
             Volumes :=
               [\<lparr>Volume_Name = DataDirVolume (k8sutil X), Volume_Source = EmptyDir\<rparr>,
                \<lparr>Volume_Name = ganeshaConfigVolume, Volume_Source = configMapSource\<rparr>,
                ConfigOverrideVolume (k8sutil X)],
             HostNetwork := hostNetwork c\<rparr>;
          podSpec = (if hostNetwork c
                     then podSpec\<lparr>Pod_DNSPolicy := DNSClusterFirstWithHostNet\<rparr>
                     else podSpec);
          podSpec = ApplyToPodSpec (Server_Placement (Server (Spec n))) podSpec;
          podTemplateSpec =
            \<lparr>Template_Meta = emptyObjectMeta
               \<lparr>Meta_Name := instanceName n name,
                Labels := getLabels X n name,
                Annotations := Map.empty\<rparr>,
             Template_Spec = podSpec\<rparr>;
          replicas = 1
      in \<lparr>Deployment_Meta = meta,
          Strategy = DefaultDeploymentStrategy,
          Template = podTemplateSpec,
          Replicas = Some replicas\<rparr>)"

subsection \<open>validateGanesha\<close>

definition verifyExportExists :: "GaneshaExportSpec \<Rightarrow> error option" where
  "verifyExportExists export = None"

fun validateExports :: "int \<Rightarrow> GaneshaExportSpec list \<Rightarrow> error option" where
  "validateExports i [] = None"
| "validateExports i (export # exports) =
     (if Export_Path export = [] then
        Some (Errorf ''missing path for export %d'' [Itoa i] None)
      else if PseudoPath export = [] then
        Some (Errorf ''missing pseudoPath for export %d'' [Itoa i] None)
      else case verifyExportExists export of
             Some err \<Rightarrow> Some (Errorf ''invalid export path. %+v'' [] (Some err))
           | None \<Rightarrow> validateExports (i + 1) exports)"

definition validateGanesha :: "NFSGanesha \<Rightarrow> error option" where
  "validateGanesha n =
     (if NFS_Name n = [] then Some (Errorf ''missing name'' [] None)
      else if NFS_Namespace n = [] then Some (Errorf ''missing namespace'' [] None)
      else if Store_Name (Store (Spec n)) = [] then Some (Errorf ''missing storeName'' [] None)
      else if Store_Type (Store (Spec n)) \<noteq> ''file'' \<and> Store_Type (Store (Spec n)) \<noteq> ''object''
        then Some (Errorf ''unrecognized store type: %s'' [Store_Type (Store (Spec n))] None)
      else if Pool (ClientRecovery (Spec n)) = [] then
        Some (Errorf ''missing clientRecovery.pool'' [] None)
      else if Recovery_Namespace (ClientRecovery (Spec n)) = [] then
        Some (Errorf ''missing clientRecovery.namesapce'' [] None)
      else if length (Exports (Spec n)) = 0 then
        Some (Errorf ''at least one export is required'' [] None)
      else case validateExports 0 (Exports (Spec n)) of
             Some err \<Rightarrow> Some err
           | None \<Rightarrow>
               if Active (Server (Spec n)) = 0 then
                 Some (Errorf ''at least one active server required'' [] None)
               else None)"

subsection \<open>createGanesha\<close>

text \<open>
  The body of the loop of \<open>createGanesha\<close> for the ordinal \<open>i\<close>: an error is a
  \<open>return\<close> out of the loop, no error is the end of the iteration. After the
  creation of the deployment the source either returns (\<open>Inl\<close>) or logs one of
  two lines and goes on (\<open>Inr\<close>, with the trace).
\<close>

definition createGanesha_body ::
  "packages \<Rightarrow> GaneshaController \<Rightarrow> NFSGanesha \<Rightarrow> substrate \<Rightarrow> nat \<Rightarrow> event list \<Rightarrow>
   error option \<times> event list" where
  "createGanesha_body X c n w i tr =
     (let name = identityOf i
      in case generateConfig X n name w tr of
           (Inl err, tr) \<Rightarrow> (Some (Errorf ''failed to create config. %+v'' [] (Some err)), tr)
         | (Inr configName, tr) \<Rightarrow>
             (let deployment = nfs_makeDeployment X c n name configName;
                  (err, tr) = call w (CreateDeployment (NFS_Namespace n) deployment) tr
              in case (case err of
                         Some err \<Rightarrow>
                           if \<not> IsAlreadyExists err then
                             Inl (Errorf ''failed to create mds deployment. %+v'' [] (Some err))
                           else
                             Inr (logf (Infof ''ganesha deployment %s already exists''
                                          [Meta_Name (Deployment_Meta deployment)]) tr)
                       | None \<Rightarrow>
                           Inr (logf (Infof ''ganesha deployment %s started''
                                        [Meta_Name (Deployment_Meta deployment)]) tr)) of
                   Inl err \<Rightarrow> (Some err, tr)
                 | Inr tr \<Rightarrow>
                     (case createGaneshaService X c n name w tr of
                        (Some err, tr) \<Rightarrow>
                          (Some (Errorf ''failed to create ganesha service. %+v'' [] (Some err)),
                           tr)
                      | (None, tr) \<Rightarrow>
                          (case addServerToDatabase n name w tr of
                             (Some err, tr) \<Rightarrow>
                               (None,
                                logf (Warningf
                                  ''Failed to add ganesha server %s to database. It may already be added. %+v''
                                  [name] (Some err)) tr)
                           | (None, tr) \<Rightarrow> (None, tr)))))"

function createGanesha_loop ::
  "packages \<Rightarrow> GaneshaController \<Rightarrow> NFSGanesha \<Rightarrow> substrate \<Rightarrow> nat \<Rightarrow> event list \<Rightarrow>
   error option \<times> event list" where
  "createGanesha_loop X c n w i tr =
     (if int i < Active (Server (Spec n)) then
        (case createGanesha_body X c n w i tr of
           (Some err, tr) \<Rightarrow> (Some err, tr)
         | (None, tr) \<Rightarrow> createGanesha_loop X c n w (Suc i) tr)
      else (None, tr))"
  by pat_completeness auto
termination
  by (relation "measure (\<lambda>(X, c, n, w, i, tr). nat (Active (Server (Spec n)) - int i))") auto

declare createGanesha_loop.simps [simp del]

definition createGanesha ::
  "packages \<Rightarrow> GaneshaController \<Rightarrow> NFSGanesha \<Rightarrow> substrate \<Rightarrow> event list \<Rightarrow>
   error option \<times> event list" where
  "createGanesha X c n w tr =
     (case validateGanesha n of
        Some err \<Rightarrow> (Some err, tr)
      | None \<Rightarrow>
          (let tr = logf (Infof ''start running ganesha %s'' [NFS_Name n]) tr
           in createGanesha_loop X c n w 0 tr))"

subsection \<open>deleteGanesha\<close>

definition deleteGanesha_body ::
  "NFSGanesha \<Rightarrow> substrate \<Rightarrow> nat \<Rightarrow> event list \<Rightarrow> event list" where
  "deleteGanesha_body n w i tr =
     (let name = identityOf i;
          tr = (case removeServerFromDatabase n name w tr of
                  (Some err, tr) \<Rightarrow>
                    logf (Warningf ''failed to remove server %s from grace db. %+v''
                            [name] (Some err)) tr
                | (None, tr) \<Rightarrow> tr);
          (ignored, tr) = call w (DeleteDeployment (NFS_Namespace n) (instanceName n name)) tr;
          (err, tr) = call w (DeleteService (NFS_Namespace n) (instanceName n name)) tr
      in case err of
           Some err \<Rightarrow>
             if \<not> IsNotFound err then
               logf (Warningf ''failed to delete ganesha service. %+v'' [] (Some err)) tr
             else tr
         | None \<Rightarrow> tr)"

function deleteGanesha_loop ::
  "NFSGanesha \<Rightarrow> substrate \<Rightarrow> nat \<Rightarrow> event list \<Rightarrow> error option \<times> event list" where
  "deleteGanesha_loop n w i tr =
     (if int i < Active (Server (Spec n)) then
        deleteGanesha_loop n w (Suc i) (deleteGanesha_body n w i tr)
      else (None, tr))"
  by pat_completeness auto
termination
  by (relation "measure (\<lambda>(n, w, i, tr). nat (Active (Server (Spec n)) - int i))") auto

declare deleteGanesha_loop.simps [simp del]

definition deleteGanesha ::
  "NFSGanesha \<Rightarrow> substrate \<Rightarrow> event list \<Rightarrow> error option \<times> event list" where
  "deleteGanesha n w tr = deleteGanesha_loop n w 0 tr"

subsection \<open>Reading a trace\<close>

text \<open>
  An event is a call (of the Kubernetes client or of the recovery tool) or a log
  line; the recovery tool is the only command the controller executes.
  \<open>graceWarned\<close> says that in a stretch of trace every failed call of the
  recovery tool is followed at once by a warning. \<open>deleteCalls\<close> are the calls of
  the deletion pass for one ordinal, in their order, and \<open>ordinals\<close> the ordinals
  that the passes loop over.
\<close>

definition isCall :: "event \<Rightarrow> bool" where
  "isCall ev = (case ev of Infof f args \<Rightarrow> False | Warningf f args err \<Rightarrow> False | _ \<Rightarrow> True)"

definition isGrace :: "event \<Rightarrow> bool" where
  "isGrace ev = (case ev of ExecuteCommand cmd args \<Rightarrow> True | _ \<Rightarrow> False)"

definition isWarning :: "event \<Rightarrow> bool" where
  "isWarning ev = (case ev of Warningf f args err \<Rightarrow> True | _ \<Rightarrow> False)"

fun graceWarned :: "substrate \<Rightarrow> event list \<Rightarrow> event list \<Rightarrow> bool" where
  "graceWarned w h [] = True"
| "graceWarned w h (ev # evs) =
     ((isGrace ev \<and> answer w h ev \<noteq> None \<longrightarrow> evs \<noteq> [] \<and> isWarning (hd evs)) \<and>
      graceWarned w (h @ [ev]) evs)"

definition deleteCalls :: "NFSGanesha \<Rightarrow> nat \<Rightarrow> event list" where
  "deleteCalls n i =
     [graceCommand n ''remove'' (identityOf i),
      DeleteDeployment (NFS_Namespace n) (instanceName n (identityOf i)),
      DeleteService (NFS_Namespace n) (instanceName n (identityOf i))]"

definition ordinals :: "NFSGanesha \<Rightarrow> nat list" where
  "ordinals n = [0..<nat (Active (Server (Spec n)))]"

text \<open>
  Three conditions on what the substrate answers. It accepts the creations when
  each create call succeeds or finds the object already there and each update
  succeeds; nothing is asked of the recovery tool. On deletion it finds nothing
  wrong when the recovery tool succeeds and deleting a service succeeds or finds
  no service. A pass was stopped by an API call when the last event of its trace
  is a call, not of the recovery tool, that was answered with an error.
\<close>

definition acceptsCreation :: "substrate \<Rightarrow> bool" where
  "acceptsCreation w =
     (\<forall>h ev. case ev of
        CreateConfigMap ns cm \<Rightarrow> answer w h ev = None \<or> answer w h ev = Some AlreadyExists
      | UpdateConfigMap ns cm \<Rightarrow> answer w h ev = None
      | CreateDeployment ns d \<Rightarrow> answer w h ev = None \<or> answer w h ev = Some AlreadyExists
      | CreateService ns svc \<Rightarrow> answer w h ev = None \<or> answer w h ev = Some AlreadyExists
      | _ \<Rightarrow> True)"

definition deletionsFindNothing :: "substrate \<Rightarrow> bool" where
  "deletionsFindNothing w =
     (\<forall>h ev. case ev of
        ExecuteCommand cmd args \<Rightarrow> answer w h ev = None
      | DeleteService ns name \<Rightarrow> answer w h ev = None \<or> answer w h ev = Some NotFound
      | _ \<Rightarrow> True)"

definition stoppedByApiCall :: "substrate \<Rightarrow> event list \<Rightarrow> bool" where
  "stoppedByApiCall w tr =
     (tr \<noteq> [] \<and> isCall (last tr) \<and> \<not> isGrace (last tr) \<and>
      answer w (butlast tr) (last tr) \<noteq> None)"

section \<open>A concrete instance of the parameters\<close>

text \<open>
  To run the model on concrete inputs the parameters need values. These are the
  ones a Rook cluster named \<open>rook-ceph\<close> uses: the data directory is
  \<open>/var/lib/rook\<close> (the comment in \<open>makeDeployment\<close> says so), the binaries are
  staged under \<open>/rook\<close>.
\<close>

definition fieldEnvVar :: "string \<Rightarrow> string \<Rightarrow> EnvVar" where
  "fieldEnvVar name fieldPath =
     \<lparr>Env_Name = name, Env_Value = [], Env_ValueFrom = Some fieldPath\<rparr>"

definition example_k8sutil :: k8sutil_pkg where
  "example_k8sutil =
     \<lparr>DataDir = ''/var/lib/rook'',
      DataDirVolume = ''rook-data'',
      BinariesMountPath = ''/rook'',
      AppAttr = ''app'',
      ClusterAttr = ''rook_cluster'',
      PrivateIPEnvVar = ''ROOK_PRIVATE_IP'',
      PublicIPEnvVar = ''ROOK_PUBLIC_IP'',
      PathToVolumeName = map (\<lambda>ch. if ch = CHR ''/'' then CHR ''-'' else ch),
      PodIPEnvVar = (\<lambda>name. fieldEnvVar name ''status.podIP''),
      ClusterDaemonEnvVars = [envVar ''CONTAINER_IMAGE'' ''ceph/ceph:v13''],
      ConfigDirEnvVar = envVar ''ROOK_CONFIG_DIR'',
      ConfigOverrideEnvVar = envVar ''ROOK_CEPH_CONFIG_OVERRIDE'' ''/etc/rook/config/override.conf'',
      ConfigOverrideVolume =
        \<lparr>Volume_Name = ''rook-config-override'',
         Volume_Source = ConfigMapSource ''rook-config-override''
           [(''config'', ''override.conf'')]\<rparr>,
      ConfigOverrideMount =
        \<lparr>Mount_Name = ''rook-config-override'', MountPath = ''/etc/rook/config''\<rparr>,
      MakeRookImage = (\<lambda>version. ''rook/ceph:'' @ version),
      SetOwnerRef = (\<lambda>namespace object owner. object\<lparr>OwnerReferences := [owner]\<rparr>)\<rparr>"

definition example_opmon :: opmon_pkg where
  "example_opmon =
     \<lparr>ClusterNameEnvVar = envVar ''ROOK_CLUSTER_NAME'',
      EndpointEnvVar = fieldEnvVar ''ROOK_MON_ENDPOINTS'' ''rook-ceph-mon-endpoints'',
      SecretEnvVar = fieldEnvVar ''ROOK_MON_SECRET'' ''rook-ceph-mon'',
      AdminSecretEnvVar = fieldEnvVar ''ROOK_ADMIN_SECRET'' ''rook-ceph-mon''\<rparr>"

definition example_opspec :: opspec_pkg where
  "example_opspec =
     \<lparr>CephVolumeMounts =
        [\<lparr>Mount_Name = ''rook-data'', MountPath = ''/var/lib/rook''\<rparr>,
         \<lparr>Mount_Name = ''rook-config-override'', MountPath = ''/etc/rook/config''\<rparr>],
      RookVolumeMounts =
        [\<lparr>Mount_Name = ''rook-data'', MountPath = ''/var/lib/rook''\<rparr>,
         \<lparr>Mount_Name = ''rook-config-override'', MountPath = ''/etc/rook/config''\<rparr>],
      PodVolumes = (\<lambda>dataDirHostPath.
        [\<lparr>Volume_Name = ''rook-data'',
          Volume_Source = (if dataDirHostPath = [] then EmptyDir else HostPath dataDirHostPath)\<rparr>,
         \<lparr>Volume_Name = ''rook-config-override'',
          Volume_Source = ConfigMapSource ''rook-config-override''
            [(''config'', ''override.conf'')]\<rparr>]),
      ConfigInitContainerName = ''config-init''\<rparr>"

definition example_config :: config_pkg where
  "example_config =
     \<lparr>StoreTypeKey = ''storeType'',
      DatabaseSizeMBKey = ''databaseSizeMB'',
      WalSizeMBKey = ''walSizeMB'',
      JournalSizeMBKey = ''journalSizeMB'',
      MetadataDeviceKey = ''metadataDevice''\<rparr>"

definition example_osd :: osd_pkg where
  "example_osd =
     \<lparr>osd_appName = ''rook-ceph-osd'',
      prepareAppName = ''rook-ceph-osd-prepare'',
      osdAppNameFmt = (\<lambda>id. ''rook-ceph-osd-'' @ Itoa id),
      osdLabelKey = ''ceph-osd-id'',
      IsRemovingNode = (\<lambda>devices. devices = ''none'')\<rparr>"

text \<open>
  The configuration text of a gateway contains the line of section 6 of the
  specification that points to its object in the recovery pool.
\<close>

definition example_nfs :: nfs_pkg where
  "example_nfs =
     \<lparr>getGaneshaConfig = (\<lambda>spec name.
        ''%url'' @ [CHR 0x09] @ ''rados://'' @ Pool (ClientRecovery spec) @ ''/'' @
        Recovery_Namespace (ClientRecovery spec) @ ''/conf-'' @ name)\<rparr>"

definition examplePackages :: packages where
  "examplePackages =
     \<lparr>k8sutil = example_k8sutil,
      opmon = example_opmon,
      opspec = example_opspec,
      config = example_config,
      osd = example_osd,
      nfs = example_nfs,
      LocationEnvVar = envVar ''ROOK_LOCATION'',
      LabelHostname = ''kubernetes.io/hostname'',
      Getenv = (\<lambda>name. [])\<rparr>"

definition exampleCluster :: Cluster where
  "exampleCluster =
     \<lparr>Namespace = ''rook-ceph'',
      dataDirHostPath = ''/var/lib/rook'',
      Cluster_HostNetwork = False,
      serviceAccount = ''rook-ceph-cluster'',
      rookVersion = ''master'',
      cephVersion_Image = ''ceph/ceph:v13'',
      ownerRef = \<lparr>Owner_Kind = ''CephCluster'', Owner_Name = ''rook-ceph'', UID = ''c1''\<rparr>,
      placement =
        \<lparr>Placement_NodeAffinity = None, Placement_PodAffinity = None,
         Placement_PodAntiAffinity = None, Placement_Tolerations = None\<rparr>\<rparr>"

definition exampleStoreConfig :: StoreConfig where
  "exampleStoreConfig =
     \<lparr>StoreType = ''bluestore'', WalSizeMB = 0, DatabaseSizeMB = 1024, JournalSizeMB = 0\<rparr>"

definition exampleOSD :: OSDInfo where
  "exampleOSD =
     \<lparr>ID = 3,
      DataPath = ''/var/lib/rook/osd3'',
      Config = ''/var/lib/rook/osd3/rook-ceph.config'',
      OSD_Cluster = ''rook-ceph'',
      KeyringPath = ''/var/lib/rook/osd3/keyring'',
      OSD_UUID = ''6a1f'',
      Journal = ''/var/lib/rook/osd3/journal'',
      IsFileStore = True,
      IsDirectory = False,
      DevicePartUUID = ''0b4e''\<rparr>"

definition noSelection :: Selection where
  "noSelection = \<lparr>UseAllDevices = None, DeviceFilter = [], Directories = []\<rparr>"

text \<open>The same packages, but with no default volumes for a pod.\<close>

definition noBaseVolumes :: packages where
  "noBaseVolumes = examplePackages\<lparr>opspec := example_opspec\<lparr>PodVolumes := (\<lambda>dataDirHostPath. [])\<rparr>\<rparr>"

text \<open>Device lists and selections for the examples.\<close>

definition exampleDevices :: "Device list" where
  "exampleDevices = [\<lparr>Device_Name = ''sda''\<rparr>, \<lparr>Device_Name = ''sdb''\<rparr>]"

definition exampleDirectories :: Selection where
  "exampleDirectories =
     \<lparr>UseAllDevices = None, DeviceFilter = [], Directories = [\<lparr>Path = ''/mnt/a''\<rparr>]\<rparr>"

definition exampleFilterAndAll :: Selection where
  "exampleFilterAndAll =
     \<lparr>UseAllDevices = Some True, DeviceFilter = ''^sd.'', Directories = []\<rparr>"

definition binariesMount :: VolumeMount where
  "binariesMount = \<lparr>Mount_Name = rookBinariesVolumeName, MountPath = rookBinariesMountPath\<rparr>"

text \<open>
  A gateway with two active servers, as in the sample of the documentation, the
  same with no active server, and substrates: one on which everything is already
  there (creating answers already-exists, the recovery tool fails, deleting finds
  nothing), and one on which only the deletions find nothing.
\<close>

definition exampleGanesha :: NFSGanesha where
  "exampleGanesha =
     \<lparr>NFS_Name = ''my-nfs'',
      NFS_Namespace = ''rook-ceph'',
      Spec =
        \<lparr>Store = \<lparr>Store_Name = ''myfs'', Store_Type = ''file''\<rparr>,
         ClientRecovery = \<lparr>Pool = ''myfs-data0'', Recovery_Namespace = ''nfs-ns''\<rparr>,
         Exports = [\<lparr>Export_Path = ''/'', PseudoPath = ''/cephfs''\<rparr>],
         Server =
           \<lparr>Active = 2,
            Server_Placement =
              \<lparr>Placement_NodeAffinity = None, Placement_PodAffinity = None,
               Placement_PodAntiAffinity = None, Placement_Tolerations = None\<rparr>,
            Server_Resources = noResources\<rparr>\<rparr>\<rparr>"

definition noActiveServer :: NFSGanesha where
  "noActiveServer =
     exampleGanesha\<lparr>Spec := (Spec exampleGanesha)
       \<lparr>Server := (Server (Spec exampleGanesha))\<lparr>Active := 0\<rparr>\<rparr>\<rparr>"

definition exampleController :: GaneshaController where
  "exampleController =
     \<lparr>rookImage = ''rook/ceph:master'', hostNetwork = False,
      controller_ownerRef =
        \<lparr>Owner_Kind = ''NFSGanesha'', Owner_Name = ''my-nfs'', UID = ''g1''\<rparr>\<rparr>"

definition alreadyThere :: substrate where
  "alreadyThere =
     \<lparr>answer = (\<lambda>tr ev. case ev of
          ExecuteCommand cmd args \<Rightarrow> Some (OtherError ''exit status 1'')
        | CreateConfigMap ns cm \<Rightarrow> Some AlreadyExists
        | CreateDeployment ns d \<Rightarrow> Some AlreadyExists
        | CreateService ns svc \<Rightarrow> Some AlreadyExists
        | DeleteDeployment ns name \<Rightarrow> Some NotFound
        | DeleteService ns name \<Rightarrow> Some NotFound
        | _ \<Rightarrow> None),
      createdService = (\<lambda>tr svc. svc)\<rparr>"

definition nothingLeft :: substrate where
  "nothingLeft =
     \<lparr>answer = (\<lambda>tr ev. case ev of
          DeleteDeployment ns name \<Rightarrow> Some NotFound
        | DeleteService ns name \<Rightarrow> Some NotFound
        | _ \<Rightarrow> None),
      createdService = (\<lambda>tr svc. svc)\<rparr>"

section \<open>Properties of the instance identities\<close>

lemma distinct_alphabet: "distinct alphabet"
  by (simp add: alphabet_def)

lemma length_alphabet: "length alphabet = 26"
  by (simp add: alphabet_def)

lemma digitOf_letter: "k < 26 \<Longrightarrow> digitOf (letter k) = Suc k"
proof -
  assume k: "k < 26"
  have "takeWhile (\<lambda>d. d \<noteq> alphabet ! k) alphabet = take k alphabet"
    using distinct_alphabet k length_alphabet
    by (simp add: takeWhile_not_last takeWhile_eq_take_P_nth nth_eq_iff_index_eq)
  then show ?thesis using k by (simp add: letter_def length_alphabet)
qed

lemma bijective26_append:
  "bijective26 acc (xs @ ys) = bijective26 (bijective26 acc xs) ys"
  by (induction xs arbitrary: acc) auto

text \<open>
  Read back as a bijective base-26 numeral, the name of ordinal \<open>n\<close> has the
  value \<open>n + 1\<close>: the names enumerate the numerals in order, starting at \<open>a\<close>.
\<close>

lemma bijective26_identityOf: "bijective26 0 (identityOf n) = Suc n"
proof (induction n rule: identityOf.induct)
  case (1 n)
  show ?case
  proof (cases "n < 26")
    case True
    then show ?thesis
      by (simp add: identityOf.simps [of n] digitOf_letter del: digitOf.simps)
  next
    case False
    then have "bijective26 0 (identityOf (n div 26 - 1)) = Suc (n div 26 - 1)"
      using 1 by simp
    moreover have "n div 26 \<ge> 1" using False by simp
    ultimately show ?thesis using False
      by (simp add: identityOf.simps [of n] bijective26_append digitOf_letter
          del: digitOf.simps)
  qed
qed

lemma identityOf_inj: "identityOf a = identityOf b \<Longrightarrow> a = b"
proof -
  assume "identityOf a = identityOf b"
  then have "bijective26 0 (identityOf a) = bijective26 0 (identityOf b)" by simp
  then show "a = b" by (simp add: bijective26_identityOf)
qed

lemma identityOf_lowercase: "set (identityOf n) \<subseteq> set alphabet"
proof (induction n rule: identityOf.induct)
  case (1 n)
  have "letter (n mod 26) \<in> set alphabet"
    by (simp add: letter_def length_alphabet)
  moreover have "n < 26 \<Longrightarrow> letter n \<in> set alphabet"
    by (simp add: letter_def length_alphabet)
  ultimately show ?case using 1
    by (cases "n < 26") (simp_all add: identityOf.simps [of n])
qed

text \<open>
  Claim C1. \<open>identityOf\<close> is a total function of the ordinal (a natural number, so
  every ordinal from 0 on) that counts in bijective base 26 over the lowercase
  letters: ordinals 0, 25, 26, 27, 701 and 702 are named \<open>a\<close>, \<open>z\<close>, \<open>aa\<close>,
  \<open>ab\<close>, \<open>zz\<close> and \<open>aaa\<close>; every name consists of lowercase letters and denotes,
  as a bijective base-26 numeral, the ordinal plus one; and two different ordinals
  below 1000 never get the same name.
\<close>

theorem C1_identityOf:
  "identityOf 0 = ''a'' \<and> identityOf 25 = ''z'' \<and> identityOf 26 = ''aa'' \<and>
   identityOf 27 = ''ab'' \<and> identityOf 701 = ''zz'' \<and> identityOf 702 = ''aaa'' \<and>
   (\<forall>n. set (identityOf n) \<subseteq> set alphabet \<and> bijective26 0 (identityOf n) = Suc n) \<and>
   (\<forall>o1 o2. o1 < 1000 \<longrightarrow> o2 < 1000 \<longrightarrow> o1 \<noteq> o2 \<longrightarrow> identityOf o1 \<noteq> identityOf o2)"
proof -
  have ex: "identityOf 0 = ''a''" "identityOf 25 = ''z''" "identityOf 26 = ''aa''"
    "identityOf 27 = ''ab''" "identityOf 701 = ''zz''" "identityOf 702 = ''aaa''"
    by (simp_all add: identityOf.simps letter_def alphabet_def)
  have inj: "\<forall>o1 o2. o1 < 1000 \<longrightarrow> o2 < 1000 \<longrightarrow> o1 \<noteq> o2 \<longrightarrow> identityOf o1 \<noteq> identityOf o2"
    using identityOf_inj by blast
  show ?thesis
    using ex inj identityOf_lowercase bijective26_identityOf by simp
qed

theorem C1_identityOf_witness:
  "(51::nat) < 1000 \<and> (52::nat) < 1000 \<and> (51::nat) \<noteq> 52 \<and>
   identityOf 51 = ''az'' \<and> identityOf 52 = ''ba'' \<and> identityOf 51 \<noteq> identityOf 52"
proof -
  have "identityOf 51 \<noteq> identityOf 52"
    using C1_identityOf by simp
  moreover have "identityOf 51 = ''az''" "identityOf 52 = ''ba''"
    by (simp_all add: identityOf.simps letter_def alphabet_def)
  ultimately show ?thesis by simp
qed

section \<open>Properties of the storage daemon deployments\<close>

lemma ApplyToPodSpec_keeps:
  "InitContainers (ApplyToPodSpec p t) = InitContainers t"
  "Containers (ApplyToPodSpec p t) = Containers t"
  "Volumes (ApplyToPodSpec p t) = Volumes t"
  by (simp_all add: ApplyToPodSpec_def Let_def)

lemma makeDeployment_error_iff:
  "makeDeployment X c nodeName devices selection resources storeConfig metadataDevice location
     osdInfo = Inl e \<longleftrightarrow>
   e = emptyVolumes \<and> PodVolumes (opspec X) (dataDirHostPath c) = [] \<and> IsDirectory osdInfo \<and>
   filepath_Dir (DataPath osdInfo) = DataDir (k8sutil X)"
  by (auto simp add: makeDeployment_def Let_def emptyVolumes_def split: prod.splits if_splits)

lemma makeDeployment_builds:
  assumes "\<not> IsDirectory osdInfo \<or> filepath_Dir (DataPath osdInfo) \<noteq> DataDir (k8sutil X) \<or>
           PodVolumes (opspec X) (dataDirHostPath c) \<noteq> []"
  shows "\<exists>d. makeDeployment X c nodeName devices selection resources storeConfig metadataDevice
           location osdInfo = Inr d"
proof (cases "makeDeployment X c nodeName devices selection resources storeConfig
    metadataDevice location osdInfo")
  case (Inl e)
  then show ?thesis using assms by (simp add: makeDeployment_error_iff)
next
  case (Inr d)
  then show ?thesis by simp
qed

lemma makeDeployment_containers:
  assumes "makeDeployment X c nodeName devices selection resources storeConfig metadataDevice
           location osdInfo = Inr d"
  shows "Containers (podOf d) = [daemonOf d]"
    and "Args (configInitOf d) = [''ceph'', ''osd'', ''init'']"
    and "Container_Name (daemonOf d) = ''osd''"
  using assms
  by (auto simp add: makeDeployment_def Let_def podOf_def daemonOf_def configInitOf_def
      ApplyToPodSpec_keeps split: prod.splits if_splits)

lemma makeDeployment_staging:
  assumes "makeDeployment X c nodeName devices selection resources storeConfig metadataDevice
           location osdInfo = Inr d"
    and "\<not> IsDirectory osdInfo" and "IsFileStore osdInfo"
  shows "InitContainers (podOf d) = [configInitOf d, snd (getCopyBinariesContainer X c)]"
    and "Volumes (podOf d) =
           PodVolumes (opspec X) (dataDirHostPath c) @
             [\<lparr>Volume_Name = ''devices'', Volume_Source = HostPath ''/dev''\<rparr>,
              fst (getCopyBinariesContainer X c)]"
    and "VolumeMounts (daemonOf d) =
           CephVolumeMounts (opspec X) @
             [\<lparr>Mount_Name = ''devices'', MountPath = ''/dev''\<rparr>,
              \<lparr>Mount_Name = rookBinariesVolumeName, MountPath = rookBinariesMountPath\<rparr>]"
    and "Command (daemonOf d) = [path_Join [BinariesMountPath (k8sutil X), ''tini'']]"
    and "Args (daemonOf d) =
           [''--'', path_Join [BinariesMountPath (k8sutil X), ''rook''],
            ''ceph'', ''osd'', ''filestore-device'',
            ''--source-path'', path_Join [''/dev/disk/by-partuuid'', DevicePartUUID osdInfo],
            ''--mount-path'', DataPath osdInfo,
            ''--''] @ commonArgs osdInfo"
  using assms
  by (auto simp add: makeDeployment_def Let_def podOf_def daemonOf_def configInitOf_def
      commonArgs_def ApplyToPodSpec_keeps getCopyBinariesContainer_def
      split: prod.splits if_splits)

lemma makeDeployment_direct:
  assumes "makeDeployment X c nodeName devices selection resources storeConfig metadataDevice
           location osdInfo = Inr d"
    and "\<not> (\<not> IsDirectory osdInfo \<and> IsFileStore osdInfo)"
  shows "InitContainers (podOf d) = [configInitOf d]"
    and "Command (daemonOf d) = [''ceph-osd'']"
    and "Args (daemonOf d) = commonArgs osdInfo"
    and "\<not> IsDirectory osdInfo \<Longrightarrow>
         Volumes (podOf d) =
           PodVolumes (opspec X) (dataDirHostPath c) @
             [\<lparr>Volume_Name = ''devices'', Volume_Source = HostPath ''/dev''\<rparr>]"
    and "\<not> IsDirectory osdInfo \<Longrightarrow>
         VolumeMounts (daemonOf d) =
           CephVolumeMounts (opspec X) @ [\<lparr>Mount_Name = ''devices'', MountPath = ''/dev''\<rparr>]"
  using assms
  by (auto simp add: makeDeployment_def Let_def podOf_def daemonOf_def configInitOf_def
      commonArgs_def ApplyToPodSpec_keeps split: prod.splits if_splits)

lemma makeDeployment_directory_default:
  assumes "makeDeployment X c nodeName devices selection resources storeConfig metadataDevice
           location osdInfo = Inr d"
    and "IsDirectory osdInfo"
    and "filepath_Dir (DataPath osdInfo) = DataDir (k8sutil X)"
  shows "Volumes (podOf d) = PodVolumes (opspec X) (dataDirHostPath c)"
    and "VolumeMounts (daemonOf d) = CephVolumeMounts (opspec X)"
    and "VolumeMounts (configInitOf d) = RookVolumeMounts (opspec X)"
  using assms
  by (auto simp add: makeDeployment_def Let_def podOf_def daemonOf_def configInitOf_def
      ApplyToPodSpec_keeps split: prod.splits if_splits)

lemma makeDeployment_directory_other:
  assumes "makeDeployment X c nodeName devices selection resources storeConfig metadataDevice
           location osdInfo = Inr d"
    and "IsDirectory osdInfo"
    and "filepath_Dir (DataPath osdInfo) \<noteq> DataDir (k8sutil X)"
  shows "Volumes (podOf d) =
           PodVolumes (opspec X) (dataDirHostPath c) @
             [\<lparr>Volume_Name = PathToVolumeName (k8sutil X) (filepath_Dir (DataPath osdInfo)),
               Volume_Source = HostPath (filepath_Dir (DataPath osdInfo))\<rparr>]"
    and "VolumeMounts (daemonOf d) =
           CephVolumeMounts (opspec X) @
             [\<lparr>Mount_Name = PathToVolumeName (k8sutil X) (filepath_Dir (DataPath osdInfo)),
               MountPath = filepath_Dir (DataPath osdInfo)\<rparr>]"
    and "VolumeMounts (configInitOf d) =
           RookVolumeMounts (opspec X) @
             [\<lparr>Mount_Name = PathToVolumeName (k8sutil X) (filepath_Dir (DataPath osdInfo)),
               MountPath = filepath_Dir (DataPath osdInfo)\<rparr>]"
  using assms
  by (auto simp add: makeDeployment_def Let_def podOf_def daemonOf_def configInitOf_def
      ApplyToPodSpec_keeps split: prod.splits if_splits)

text \<open>Evaluation of the library functions on the paths of the examples.\<close>

lemma example_paths:
  "path_Join [''/rook'', ''tini''] = ''/rook/tini''"
  "path_Join [''/rook'', ''rook''] = ''/rook/rook''"
  "path_Join [''/dev/disk/by-partuuid'', ''0b4e''] = ''/dev/disk/by-partuuid/0b4e''"
  "filepath_Dir ''/var/lib/rook/osd3'' = ''/var/lib/rook''"
  "filepath_Dir ''/mnt/data/osd3'' = ''/mnt/data''"
  by (simp_all add: path_Join_def filepath_Dir_def Clean_def Let_def)

lemma example_Itoa: "Itoa 3 = ''3''" "Itoa 1024 = ''1024''"
  by (simp_all add: Itoa_def decimal.simps digit_def)

text \<open>
  \<open>provisionPodTemplateSpec\<close> always builds a pod: its volumes are the default
  ones, the volume of the staged binaries, the device volumes when a device
  selector or a metadata device is given, and one volume per directory.
\<close>

lemma provisionPodTemplateSpec_volumes:
  "\<exists>t. provisionPodTemplateSpec X c devices selection resources storeConfig metadataDevice
          nodeName location restart = Inr t \<and>
        Volumes (Template_Spec t) =
          PodVolumes (opspec X) (dataDirHostPath c) @
          [\<lparr>Volume_Name = rookBinariesVolumeName, Volume_Source = EmptyDir\<rparr>] @
          (if devices \<noteq> [] \<or> DeviceFilter selection \<noteq> [] \<or> GetUseAllDevices selection \<or>
              metadataDevice \<noteq> []
           then [\<lparr>Volume_Name = ''devices'', Volume_Source = HostPath ''/dev''\<rparr>,
                 \<lparr>Volume_Name = ''udev'', Volume_Source = HostPath ''/run/udev''\<rparr>]
           else []) @
          map (\<lambda>d. \<lparr>Volume_Name = PathToVolumeName (k8sutil X) (Path d),
                      Volume_Source = HostPath (Path d)\<rparr>) (Directories selection) \<and>
        Containers (Template_Spec t) =
          [snd (getCopyBinariesContainer X c),
           provisionOSDContainer X c devices selection resources storeConfig metadataDevice
             nodeName location
             \<lparr>Mount_Name = rookBinariesVolumeName, MountPath = rookBinariesMountPath\<rparr>]"
  by (simp add: provisionPodTemplateSpec_def Let_def getCopyBinariesContainer_def
      ApplyToPodSpec_keeps)

text \<open>
  The environment and the mounts of the provision container, piece by piece, and
  the selectors it does not look at.
\<close>

lemma provisionOSDContainer_Env:
  "Env (provisionOSDContainer X c devices selection resources storeConfig metadataDevice
          nodeName location m) =
   getConfigEnvVars X c storeConfig (DataDir (k8sutil X)) nodeName location @
   deviceSelectorEnvVars devices selection @
   (if metadataDevice \<noteq> [] then [metadataDeviceEnvVar metadataDevice] else []) @
   (if Directories selection \<noteq> [] \<and> \<not> IsRemovingNode (osd X) (DeviceFilter selection)
    then [dataDirectoriesEnvVar (strings_Join (map Path (Directories selection)) '','')]
    else [])"
  by (simp add: provisionOSDContainer_def Let_def deviceSelectorEnvVars_def)

lemma provisionOSDContainer_VolumeMounts:
  "VolumeMounts (provisionOSDContainer X c devices selection resources storeConfig
          metadataDevice nodeName location m) =
   CephVolumeMounts (opspec X) @ [m] @
   (if devices \<noteq> [] \<or> DeviceFilter selection \<noteq> [] \<or> GetUseAllDevices selection \<or>
       metadataDevice \<noteq> []
    then [\<lparr>Mount_Name = ''devices'', MountPath = ''/dev''\<rparr>,
          \<lparr>Mount_Name = ''udev'', MountPath = ''/run/udev''\<rparr>]
    else []) @
   map (directoryMount X) (Directories selection)"
  by (simp add: provisionOSDContainer_def Let_def directoryMount_def comp_def)

lemma provisionOSDContainer_devices:
  assumes "devices \<noteq> []" and "Directories s' = Directories s"
    and "Directories s = [] \<or>
         IsRemovingNode (osd X) (DeviceFilter s') = IsRemovingNode (osd X) (DeviceFilter s)"
  shows "provisionOSDContainer X c devices s' resources storeConfig metadataDevice nodeName
           location m =
         provisionOSDContainer X c devices s resources storeConfig metadataDevice nodeName
           location m"
  using assms by (auto simp add: provisionOSDContainer_def Let_def)

lemma provisionOSDContainer_filter:
  assumes "devices = []" and "DeviceFilter s \<noteq> []" and "DeviceFilter s' = DeviceFilter s"
    and "Directories s' = Directories s"
  shows "provisionOSDContainer X c devices s' resources storeConfig metadataDevice nodeName
           location m =
         provisionOSDContainer X c devices s resources storeConfig metadataDevice nodeName
           location m"
  using assms by (auto simp add: provisionOSDContainer_def Let_def)

lemma provisionPodTemplateSpec_devices:
  assumes "devices \<noteq> []" and "Directories s' = Directories s"
    and "Directories s = [] \<or>
         IsRemovingNode (osd X) (DeviceFilter s') = IsRemovingNode (osd X) (DeviceFilter s)"
  shows "provisionPodTemplateSpec X c devices s' resources storeConfig metadataDevice nodeName
           location restart =
         provisionPodTemplateSpec X c devices s resources storeConfig metadataDevice nodeName
           location restart"
proof -
  note eq = provisionOSDContainer_devices [OF assms]
  show ?thesis
    using assms(1,2) by (simp add: provisionPodTemplateSpec_def Let_def eq split: prod.splits)
qed

lemma provisionPodTemplateSpec_filter:
  assumes "devices = []" and "DeviceFilter s \<noteq> []" and "DeviceFilter s' = DeviceFilter s"
    and "Directories s' = Directories s"
  shows "provisionPodTemplateSpec X c devices s' resources storeConfig metadataDevice nodeName
           location restart =
         provisionPodTemplateSpec X c devices s resources storeConfig metadataDevice nodeName
           location restart"
proof -
  note eq = provisionOSDContainer_filter [OF assms]
  show ?thesis
    using assms(2,3,4) by (simp add: provisionPodTemplateSpec_def Let_def eq split: prod.splits)
qed


lemma example_Join: "strings_Join [''sda'', ''sdb''] '','' = ''sda,sdb''"
  by simp

text \<open>
  Reading the configuration back: a variable with another name changes nothing,
  each of the five variables sets its key.
\<close>

lemma configFromEnvVar_foreign:
  "Env_Name ev \<notin> set configEnvVarNames \<Longrightarrow> configFromEnvVar X cfg ev = cfg"
  by (simp add: configFromEnvVar_def configEnvVarNames_def)

lemma foldl_configFromEnvVar_foreign:
  "\<forall>ev \<in> set evs. Env_Name ev \<notin> set configEnvVarNames \<Longrightarrow>
   foldl (configFromEnvVar X) cfg evs = cfg"
  by (induction evs arbitrary: cfg) (simp_all add: configFromEnvVar_foreign)

lemma configFromEnvVar_own:
  "configFromEnvVar X cfg (osdStoreEnvVar v) = cfg(StoreTypeKey (config X) \<mapsto> v)"
  "configFromEnvVar X cfg (osdDatabaseSizeEnvVar n) =
     cfg(DatabaseSizeMBKey (config X) \<mapsto> Itoa n)"
  "configFromEnvVar X cfg (osdWalSizeEnvVar n) = cfg(WalSizeMBKey (config X) \<mapsto> Itoa n)"
  "configFromEnvVar X cfg (osdJournalSizeEnvVar n) =
     cfg(JournalSizeMBKey (config X) \<mapsto> Itoa n)"
  "configFromEnvVar X cfg (metadataDeviceEnvVar v) = cfg(MetadataDeviceKey (config X) \<mapsto> v)"
  "configFromEnvVar X cfg (nodeNameEnvVar v) = cfg"
  "configFromEnvVar X cfg (envVar ''ROOK_CLUSTER_ID'' v) = cfg"
  "configFromEnvVar X cfg (dataDevicesEnvVar v) = cfg"
  "configFromEnvVar X cfg (deviceFilterEnvVar v) = cfg"
  "configFromEnvVar X cfg (dataDirectoriesEnvVar v) = cfg"
  by (simp_all add: configFromEnvVar_def envVar_def osdStoreEnvVar_def
      osdDatabaseSizeEnvVar_def osdWalSizeEnvVar_def osdJournalSizeEnvVar_def
      metadataDeviceEnvVar_def nodeNameEnvVar_def dataDevicesEnvVar_def
      deviceFilterEnvVar_def dataDirectoriesEnvVar_def osdStoreEnvVarName_def
      osdDatabaseSizeEnvVarName_def osdWalSizeEnvVarName_def osdJournalSizeEnvVarName_def
      osdMetadataDeviceEnvVarName_def dataDirsEnvVarName_def)

lemma foldl_option_piece:
  "foldl f a (if b then [x] else []) = (if b then f a x else a)"
  by simp

lemma getConfigEnvVars_pieces:
  "getConfigEnvVars X c storeConfig (DataDir (k8sutil X)) nodeName location =
     [nodeNameEnvVar nodeName, envVar ''ROOK_CLUSTER_ID'' (UID (ownerRef c))] @
     take 8 (foreignEnvVars X c location) @
     (if StoreType storeConfig \<noteq> [] then [osdStoreEnvVar (StoreType storeConfig)] else []) @
     (if DatabaseSizeMB storeConfig \<noteq> 0
      then [osdDatabaseSizeEnvVar (DatabaseSizeMB storeConfig)] else []) @
     (if WalSizeMB storeConfig \<noteq> 0 then [osdWalSizeEnvVar (WalSizeMB storeConfig)] else []) @
     (if JournalSizeMB storeConfig \<noteq> 0
      then [osdJournalSizeEnvVar (JournalSizeMB storeConfig)] else []) @
     drop 8 (foreignEnvVars X c location)"
  by (simp add: getConfigEnvVars_def Let_def foreignEnvVars_def)

lemma getConfigFromContainer_provision:
  assumes "\<forall>ev \<in> set (foreignEnvVars X c location). Env_Name ev \<notin> set configEnvVarNames"
  shows "getConfigFromContainer X
           (provisionOSDContainer X c devices selection resources storeConfig metadataDevice
              nodeName location m) =
         storeConfigEntries X storeConfig metadataDevice"
proof -
  have t: "\<forall>ev \<in> set (take 8 (foreignEnvVars X c location)).
      Env_Name ev \<notin> set configEnvVarNames"
    using assms by (meson in_set_takeD)
  have d: "\<forall>ev \<in> set (drop 8 (foreignEnvVars X c location)).
      Env_Name ev \<notin> set configEnvVarNames"
    using assms by (meson in_set_dropD)
  have sel: "foldl (configFromEnvVar X) cfg (deviceSelectorEnvVars devices selection) = cfg"
    for cfg
    by (simp add: deviceSelectorEnvVars_def configFromEnvVar_own)
  show ?thesis
    unfolding getConfigFromContainer_def provisionOSDContainer_Env getConfigEnvVars_pieces
      foldl_append foldl_option_piece
      foldl_configFromEnvVar_foreign [OF t] foldl_configFromEnvVar_foreign [OF d] sel
    by (simp add: configFromEnvVar_own storeConfigEntries_def Let_def)
qed


lemma storeConfigEntries_lookup:
  assumes "distinct (configKeys X)"
  shows "storeConfigEntries X storeConfig metadataDevice (StoreTypeKey (config X)) =
           (if StoreType storeConfig \<noteq> [] then Some (StoreType storeConfig) else None)"
    and "storeConfigEntries X storeConfig metadataDevice (DatabaseSizeMBKey (config X)) =
           (if DatabaseSizeMB storeConfig \<noteq> 0 then Some (Itoa (DatabaseSizeMB storeConfig))
            else None)"
    and "storeConfigEntries X storeConfig metadataDevice (WalSizeMBKey (config X)) =
           (if WalSizeMB storeConfig \<noteq> 0 then Some (Itoa (WalSizeMB storeConfig)) else None)"
    and "storeConfigEntries X storeConfig metadataDevice (JournalSizeMBKey (config X)) =
           (if JournalSizeMB storeConfig \<noteq> 0 then Some (Itoa (JournalSizeMB storeConfig))
            else None)"
    and "storeConfigEntries X storeConfig metadataDevice (MetadataDeviceKey (config X)) =
           (if metadataDevice \<noteq> [] then Some metadataDevice else None)"
proof -
  have ne: "StoreTypeKey (config X) \<noteq> DatabaseSizeMBKey (config X)"
    "StoreTypeKey (config X) \<noteq> WalSizeMBKey (config X)"
    "StoreTypeKey (config X) \<noteq> JournalSizeMBKey (config X)"
    "StoreTypeKey (config X) \<noteq> MetadataDeviceKey (config X)"
    "DatabaseSizeMBKey (config X) \<noteq> WalSizeMBKey (config X)"
    "DatabaseSizeMBKey (config X) \<noteq> JournalSizeMBKey (config X)"
    "DatabaseSizeMBKey (config X) \<noteq> MetadataDeviceKey (config X)"
    "WalSizeMBKey (config X) \<noteq> JournalSizeMBKey (config X)"
    "WalSizeMBKey (config X) \<noteq> MetadataDeviceKey (config X)"
    "JournalSizeMBKey (config X) \<noteq> MetadataDeviceKey (config X)"
    using assms by (simp_all add: configKeys_def)
  note both = ne ne [symmetric]
  show "storeConfigEntries X storeConfig metadataDevice (StoreTypeKey (config X)) =
           (if StoreType storeConfig \<noteq> [] then Some (StoreType storeConfig) else None)"
    by (simp add: storeConfigEntries_def Let_def both)
  show "storeConfigEntries X storeConfig metadataDevice (DatabaseSizeMBKey (config X)) =
           (if DatabaseSizeMB storeConfig \<noteq> 0 then Some (Itoa (DatabaseSizeMB storeConfig))
            else None)"
    by (simp add: storeConfigEntries_def Let_def both)
  show "storeConfigEntries X storeConfig metadataDevice (WalSizeMBKey (config X)) =
           (if WalSizeMB storeConfig \<noteq> 0 then Some (Itoa (WalSizeMB storeConfig)) else None)"
    by (simp add: storeConfigEntries_def Let_def both)
  show "storeConfigEntries X storeConfig metadataDevice (JournalSizeMBKey (config X)) =
           (if JournalSizeMB storeConfig \<noteq> 0 then Some (Itoa (JournalSizeMB storeConfig))
            else None)"
    by (simp add: storeConfigEntries_def Let_def both)
  show "storeConfigEntries X storeConfig metadataDevice (MetadataDeviceKey (config X)) =
           (if metadataDevice \<noteq> [] then Some metadataDevice else None)"
    by (simp add: storeConfigEntries_def Let_def both)
qed

lemma storeConfigEntries_dom:
  "dom (storeConfigEntries X storeConfig metadataDevice) \<subseteq> set (configKeys X)"
  by (auto simp add: storeConfigEntries_def Let_def configKeys_def split: if_splits)

text \<open>
  Claim C2. A deployment built by \<open>makeDeployment\<close> gets the binary-staging helper
  exactly when the OSD is not a directory and its store is the file store: then the
  init containers are the config container followed by the \<open>copy-bins\<close> container,
  the \<open>rook-binaries\<close> volume (an empty directory) is among the pod's volumes and
  mounted into both the \<open>copy-bins\<close> and the daemon container, and the daemon's
  command is the staged \<open>tini\<close> running \<open>rook ceph osd filestore-device\<close> with the
  partition found by its UUID as source path, the data path as mount path and the
  common arguments after \<open>--\<close>. In every other case the only init container is the
  config container and the daemon runs \<open>ceph-osd\<close> with the common arguments. A
  device-backed OSD always yields a deployment.
\<close>

theorem C2_binary_staging:
  "(\<not> IsDirectory osdInfo \<longrightarrow>
      (\<exists>d. makeDeployment X c nodeName devices selection resources storeConfig metadataDevice
             location osdInfo = Inr d)) \<and>
   (\<forall>d. makeDeployment X c nodeName devices selection resources storeConfig metadataDevice
          location osdInfo = Inr d \<longrightarrow>
      Containers (podOf d) = [daemonOf d] \<and>
      Args (configInitOf d) = [''ceph'', ''osd'', ''init''] \<and>
      (if \<not> IsDirectory osdInfo \<and> IsFileStore osdInfo then
         InitContainers (podOf d) = [configInitOf d, snd (getCopyBinariesContainer X c)] \<and>
         Container_Name (snd (getCopyBinariesContainer X c)) = ''copy-bins'' \<and>
         Args (snd (getCopyBinariesContainer X c)) = [''ceph'', ''osd'', ''copybins''] \<and>
         VolumeMounts (snd (getCopyBinariesContainer X c)) =
           [\<lparr>Mount_Name = rookBinariesVolumeName, MountPath = rookBinariesMountPath\<rparr>] \<and>
         \<lparr>Mount_Name = rookBinariesVolumeName, MountPath = rookBinariesMountPath\<rparr>
           \<in> set (VolumeMounts (daemonOf d)) \<and>
         \<lparr>Volume_Name = rookBinariesVolumeName, Volume_Source = EmptyDir\<rparr>
           \<in> set (Volumes (podOf d)) \<and>
         Command (daemonOf d) = [path_Join [BinariesMountPath (k8sutil X), ''tini'']] \<and>
         Args (daemonOf d) =
           [''--'', path_Join [BinariesMountPath (k8sutil X), ''rook''],
            ''ceph'', ''osd'', ''filestore-device'',
            ''--source-path'', path_Join [''/dev/disk/by-partuuid'', DevicePartUUID osdInfo],
            ''--mount-path'', DataPath osdInfo,
            ''--''] @ commonArgs osdInfo
       else
         InitContainers (podOf d) = [configInitOf d] \<and>
         Command (daemonOf d) = [''ceph-osd''] \<and>
         Args (daemonOf d) = commonArgs osdInfo))"
proof (intro conjI impI allI)
  assume "\<not> IsDirectory osdInfo"
  then show "\<exists>d. makeDeployment X c nodeName devices selection resources storeConfig
      metadataDevice location osdInfo = Inr d"
    by (simp add: makeDeployment_builds)
next
  fix d
  assume d: "makeDeployment X c nodeName devices selection resources storeConfig metadataDevice
      location osdInfo = Inr d"
  show "Containers (podOf d) = [daemonOf d]"
    using d by (rule makeDeployment_containers)
  show "Args (configInitOf d) = [''ceph'', ''osd'', ''init'']"
    using d by (rule makeDeployment_containers)
  show "if \<not> IsDirectory osdInfo \<and> IsFileStore osdInfo then
         InitContainers (podOf d) = [configInitOf d, snd (getCopyBinariesContainer X c)] \<and>
         Container_Name (snd (getCopyBinariesContainer X c)) = ''copy-bins'' \<and>
         Args (snd (getCopyBinariesContainer X c)) = [''ceph'', ''osd'', ''copybins''] \<and>
         VolumeMounts (snd (getCopyBinariesContainer X c)) =
           [\<lparr>Mount_Name = rookBinariesVolumeName, MountPath = rookBinariesMountPath\<rparr>] \<and>
         \<lparr>Mount_Name = rookBinariesVolumeName, MountPath = rookBinariesMountPath\<rparr>
           \<in> set (VolumeMounts (daemonOf d)) \<and>
         \<lparr>Volume_Name = rookBinariesVolumeName, Volume_Source = EmptyDir\<rparr>
           \<in> set (Volumes (podOf d)) \<and>
         Command (daemonOf d) = [path_Join [BinariesMountPath (k8sutil X), ''tini'']] \<and>
         Args (daemonOf d) =
           [''--'', path_Join [BinariesMountPath (k8sutil X), ''rook''],
            ''ceph'', ''osd'', ''filestore-device'',
            ''--source-path'', path_Join [''/dev/disk/by-partuuid'', DevicePartUUID osdInfo],
            ''--mount-path'', DataPath osdInfo,
            ''--''] @ commonArgs osdInfo
       else
         InitContainers (podOf d) = [configInitOf d] \<and>
         Command (daemonOf d) = [''ceph-osd''] \<and>
         Args (daemonOf d) = commonArgs osdInfo"
  proof (cases "\<not> IsDirectory osdInfo \<and> IsFileStore osdInfo")
    case True
    then have dev: "\<not> IsDirectory osdInfo" and fs: "IsFileStore osdInfo" by simp_all
    note st = makeDeployment_staging [OF d dev fs]
    show ?thesis
      using True st by (simp add: getCopyBinariesContainer_def Let_def)
  next
    case False
    note di = makeDeployment_direct(1-3) [OF d False]
    show ?thesis using False di by simp
  qed
qed

theorem C2_binary_staging_witness:
  "(\<exists>d. makeDeployment examplePackages exampleCluster ''node1'' [] noSelection noResources
          exampleStoreConfig [] [] exampleOSD = Inr d \<and>
        map Container_Name (InitContainers (podOf d)) = [''config-init'', ''copy-bins''] \<and>
        Command (daemonOf d) = [''/rook/tini''] \<and>
        take 10 (Args (daemonOf d)) =
          [''--'', ''/rook/rook'', ''ceph'', ''osd'', ''filestore-device'',
           ''--source-path'', ''/dev/disk/by-partuuid/0b4e'',
           ''--mount-path'', ''/var/lib/rook/osd3'', ''--'']) \<and>
   (\<exists>d. makeDeployment examplePackages exampleCluster ''node1'' [] noSelection noResources
          exampleStoreConfig [] [] (exampleOSD\<lparr>IsFileStore := False\<rparr>) = Inr d \<and>
        length (InitContainers (podOf d)) = 1 \<and>
        Command (daemonOf d) = [''ceph-osd''] \<and>
        Args (daemonOf d) =
          [''--foreground'', ''--id'', ''3'', ''--conf'', ''/var/lib/rook/osd3/rook-ceph.config'',
           ''--osd-data'', ''/var/lib/rook/osd3'', ''--keyring'', ''/var/lib/rook/osd3/keyring'',
           ''--cluster'', ''rook-ceph'', ''--osd-uuid'', ''6a1f''])"
proof -
  let ?mk = "makeDeployment examplePackages exampleCluster ''node1'' [] noSelection noResources
      exampleStoreConfig [] []"
  note a = C2_binary_staging [of exampleOSD examplePackages exampleCluster "''node1''" "[]"
      noSelection noResources exampleStoreConfig "[]" "[]"]
  note b = C2_binary_staging [of "exampleOSD\<lparr>IsFileStore := False\<rparr>" examplePackages
      exampleCluster "''node1''" "[]" noSelection noResources exampleStoreConfig "[]" "[]"]
  have dev: "\<not> IsDirectory exampleOSD" "IsFileStore exampleOSD"
    "\<not> IsDirectory (exampleOSD\<lparr>IsFileStore := False\<rparr>)"
    "\<not> IsFileStore (exampleOSD\<lparr>IsFileStore := False\<rparr>)"
    by (simp_all add: exampleOSD_def)
  obtain d1 where d1: "?mk exampleOSD = Inr d1" using a dev by blast
  obtain d2 where d2: "?mk (exampleOSD\<lparr>IsFileStore := False\<rparr>) = Inr d2" using b dev by blast
  have k: "BinariesMountPath (k8sutil examplePackages) = ''/rook''"
    "ConfigInitContainerName (opspec examplePackages) = ''config-init''"
    by (simp_all add: examplePackages_def example_k8sutil_def example_opspec_def)
  have n: "Container_Name (configInitOf d1) = ''config-init''"
    using d1 by (auto simp add: makeDeployment_def Let_def podOf_def configInitOf_def
        ApplyToPodSpec_keeps k split: prod.splits if_splits)
  have f1: "map Container_Name (InitContainers (podOf d1)) = [''config-init'', ''copy-bins''] \<and>
        Command (daemonOf d1) = [''/rook/tini''] \<and>
        take 10 (Args (daemonOf d1)) =
          [''--'', ''/rook/rook'', ''ceph'', ''osd'', ''filestore-device'',
           ''--source-path'', ''/dev/disk/by-partuuid/0b4e'',
           ''--mount-path'', ''/var/lib/rook/osd3'', ''--'']"
    using a d1 dev n by (simp add: k example_paths exampleOSD_def)
  have f2: "length (InitContainers (podOf d2)) = 1 \<and>
        Command (daemonOf d2) = [''ceph-osd''] \<and>
        Args (daemonOf d2) =
          [''--foreground'', ''--id'', ''3'', ''--conf'', ''/var/lib/rook/osd3/rook-ceph.config'',
           ''--osd-data'', ''/var/lib/rook/osd3'', ''--keyring'', ''/var/lib/rook/osd3/keyring'',
           ''--cluster'', ''rook-ceph'', ''--osd-uuid'', ''6a1f'']"
    using b d2 dev by (simp add: commonArgs_def exampleOSD_def example_Itoa)
  show ?thesis using d1 d2 f1 f2 by simp
qed

text \<open>
  Claim C3 as stated fails on the code: the directory list is not a selector of
  lower priority than the device list. With two devices and one directory selected,
  the provision container has the mount of the directory and the variable
  \<open>ROOK_DATA_DIRECTORIES\<close>, and the pod has the host-path volume of the directory.
\<close>

theorem C3_counterexample:
  "exampleDevices \<noteq> [] \<and>
   \<lparr>Mount_Name = ''-mnt-a'', MountPath = ''/mnt/a''\<rparr>
     \<in> set (VolumeMounts (provisionOSDContainer examplePackages exampleCluster exampleDevices
          exampleDirectories noResources exampleStoreConfig [] ''node1'' [] binariesMount)) \<and>
   envVar ''ROOK_DATA_DIRECTORIES'' ''/mnt/a''
     \<in> set (Env (provisionOSDContainer examplePackages exampleCluster exampleDevices
          exampleDirectories noResources exampleStoreConfig [] ''node1'' [] binariesMount)) \<and>
   (case provisionPodTemplateSpec examplePackages exampleCluster exampleDevices
          exampleDirectories noResources exampleStoreConfig [] ''node1'' []
          RestartPolicyOnFailure of
      Inl e \<Rightarrow> False
    | Inr t \<Rightarrow> \<lparr>Volume_Name = ''-mnt-a'', Volume_Source = HostPath ''/mnt/a''\<rparr>
        \<in> set (Volumes (Template_Spec t)))"
proof -
  have k: "PathToVolumeName (k8sutil examplePackages) ''/mnt/a'' = ''-mnt-a''"
    "\<not> IsRemovingNode (osd examplePackages) []"
    by (simp_all add: examplePackages_def example_k8sutil_def example_osd_def)
  have d: "Directories exampleDirectories = [\<lparr>Path = ''/mnt/a''\<rparr>]"
    "DeviceFilter exampleDirectories = []"
    by (simp_all add: exampleDirectories_def)
  have 1: "\<lparr>Mount_Name = ''-mnt-a'', MountPath = ''/mnt/a''\<rparr>
     \<in> set (VolumeMounts (provisionOSDContainer examplePackages exampleCluster exampleDevices
          exampleDirectories noResources exampleStoreConfig [] ''node1'' [] binariesMount))"
    by (simp add: provisionOSDContainer_VolumeMounts d k directoryMount_def)
  have 2: "envVar ''ROOK_DATA_DIRECTORIES'' ''/mnt/a''
     \<in> set (Env (provisionOSDContainer examplePackages exampleCluster exampleDevices
          exampleDirectories noResources exampleStoreConfig [] ''node1'' [] binariesMount))"
    by (simp add: provisionOSDContainer_Env d k dataDirectoriesEnvVar_def
        dataDirsEnvVarName_def)
  obtain t where t: "provisionPodTemplateSpec examplePackages exampleCluster exampleDevices
          exampleDirectories noResources exampleStoreConfig [] ''node1'' []
          RestartPolicyOnFailure = Inr t"
    and v: "\<lparr>Volume_Name = ''-mnt-a'', Volume_Source = HostPath ''/mnt/a''\<rparr>
        \<in> set (Volumes (Template_Spec t))"
    using provisionPodTemplateSpec_volumes [of examplePackages exampleCluster exampleDevices
        exampleDirectories noResources exampleStoreConfig "[]" "''node1''" "[]"
        RestartPolicyOnFailure]
    by (auto simp add: d k)
  show ?thesis using 1 2 t v by (simp add: exampleDevices_def)
qed

text \<open>
  Claim C3, amended. Among the device list, the device filter and the use-all-devices
  flag only the first one that is set is honoured. With a non-empty device list the
  built container and pod do not depend on the use-all flag, and on the device
  filter only through its node-removal test when there are directories; with an
  empty device list and a non-empty filter they do not depend on the use-all flag.
  The environment is the base environment, then the variable of that one selector
  (\<open>ROOK_DATA_DEVICES\<close> for the list, \<open>ROOK_DATA_DEVICE_FILTER\<close> for the filter or
  with \<open>all\<close> for the flag, nothing when none is set), then the metadata device,
  then the directories. The directory list is not part of the ranking: whatever
  device selector is set, every directory gets its mount and its host-path volume,
  and \<open>ROOK_DATA_DIRECTORIES\<close> is set unless the device filter says that the node
  is being removed.
\<close>

theorem C3_selector_priority:
  "(devices \<noteq> [] \<and> Directories s' = Directories s \<and>
    (Directories s = [] \<or>
     IsRemovingNode (osd X) (DeviceFilter s') = IsRemovingNode (osd X) (DeviceFilter s)) \<longrightarrow>
      provisionOSDContainer X c devices s' resources storeConfig metadataDevice nodeName
        location m =
      provisionOSDContainer X c devices s resources storeConfig metadataDevice nodeName
        location m \<and>
      provisionPodTemplateSpec X c devices s' resources storeConfig metadataDevice nodeName
        location restart =
      provisionPodTemplateSpec X c devices s resources storeConfig metadataDevice nodeName
        location restart) \<and>
   (devices = [] \<and> DeviceFilter s \<noteq> [] \<and> DeviceFilter s' = DeviceFilter s \<and>
    Directories s' = Directories s \<longrightarrow>
      provisionOSDContainer X c devices s' resources storeConfig metadataDevice nodeName
        location m =
      provisionOSDContainer X c devices s resources storeConfig metadataDevice nodeName
        location m \<and>
      provisionPodTemplateSpec X c devices s' resources storeConfig metadataDevice nodeName
        location restart =
      provisionPodTemplateSpec X c devices s resources storeConfig metadataDevice nodeName
        location restart) \<and>
   Env (provisionOSDContainer X c devices s resources storeConfig metadataDevice nodeName
          location m) =
     getConfigEnvVars X c storeConfig (DataDir (k8sutil X)) nodeName location @
     deviceSelectorEnvVars devices s @
     (if metadataDevice \<noteq> [] then [metadataDeviceEnvVar metadataDevice] else []) @
     (if Directories s \<noteq> [] \<and> \<not> IsRemovingNode (osd X) (DeviceFilter s)
      then [dataDirectoriesEnvVar (strings_Join (map Path (Directories s)) '','')]
      else []) \<and>
   VolumeMounts (provisionOSDContainer X c devices s resources storeConfig metadataDevice
          nodeName location m) =
     CephVolumeMounts (opspec X) @ [m] @
     (if devices \<noteq> [] \<or> DeviceFilter s \<noteq> [] \<or> GetUseAllDevices s \<or> metadataDevice \<noteq> []
      then [\<lparr>Mount_Name = ''devices'', MountPath = ''/dev''\<rparr>,
            \<lparr>Mount_Name = ''udev'', MountPath = ''/run/udev''\<rparr>]
      else []) @
     map (directoryMount X) (Directories s) \<and>
   (\<exists>t. provisionPodTemplateSpec X c devices s resources storeConfig metadataDevice nodeName
          location restart = Inr t \<and>
        Volumes (Template_Spec t) =
          PodVolumes (opspec X) (dataDirHostPath c) @
          [\<lparr>Volume_Name = rookBinariesVolumeName, Volume_Source = EmptyDir\<rparr>] @
          (if devices \<noteq> [] \<or> DeviceFilter s \<noteq> [] \<or> GetUseAllDevices s \<or>
              metadataDevice \<noteq> []
           then [\<lparr>Volume_Name = ''devices'', Volume_Source = HostPath ''/dev''\<rparr>,
                 \<lparr>Volume_Name = ''udev'', Volume_Source = HostPath ''/run/udev''\<rparr>]
           else []) @
          map (directoryVolume X) (Directories s))"
proof (intro conjI impI)
  assume a: "devices \<noteq> [] \<and> Directories s' = Directories s \<and>
    (Directories s = [] \<or>
     IsRemovingNode (osd X) (DeviceFilter s') = IsRemovingNode (osd X) (DeviceFilter s))"
  show "provisionOSDContainer X c devices s' resources storeConfig metadataDevice nodeName
        location m =
      provisionOSDContainer X c devices s resources storeConfig metadataDevice nodeName
        location m"
    using a by (intro provisionOSDContainer_devices) simp_all
  show "provisionPodTemplateSpec X c devices s' resources storeConfig metadataDevice nodeName
        location restart =
      provisionPodTemplateSpec X c devices s resources storeConfig metadataDevice nodeName
        location restart"
    using a by (intro provisionPodTemplateSpec_devices) simp_all
next
  assume b: "devices = [] \<and> DeviceFilter s \<noteq> [] \<and> DeviceFilter s' = DeviceFilter s \<and>
    Directories s' = Directories s"
  show "provisionOSDContainer X c devices s' resources storeConfig metadataDevice nodeName
        location m =
      provisionOSDContainer X c devices s resources storeConfig metadataDevice nodeName
        location m"
    using b by (intro provisionOSDContainer_filter) simp_all
  show "provisionPodTemplateSpec X c devices s' resources storeConfig metadataDevice nodeName
        location restart =
      provisionPodTemplateSpec X c devices s resources storeConfig metadataDevice nodeName
        location restart"
    using b by (intro provisionPodTemplateSpec_filter) simp_all
next
  show "Env (provisionOSDContainer X c devices s resources storeConfig metadataDevice nodeName
          location m) =
     getConfigEnvVars X c storeConfig (DataDir (k8sutil X)) nodeName location @
     deviceSelectorEnvVars devices s @
     (if metadataDevice \<noteq> [] then [metadataDeviceEnvVar metadataDevice] else []) @
     (if Directories s \<noteq> [] \<and> \<not> IsRemovingNode (osd X) (DeviceFilter s)
      then [dataDirectoriesEnvVar (strings_Join (map Path (Directories s)) '','')]
      else [])"
    by (rule provisionOSDContainer_Env)
next
  show "VolumeMounts (provisionOSDContainer X c devices s resources storeConfig metadataDevice
          nodeName location m) =
     CephVolumeMounts (opspec X) @ [m] @
     (if devices \<noteq> [] \<or> DeviceFilter s \<noteq> [] \<or> GetUseAllDevices s \<or> metadataDevice \<noteq> []
      then [\<lparr>Mount_Name = ''devices'', MountPath = ''/dev''\<rparr>,
            \<lparr>Mount_Name = ''udev'', MountPath = ''/run/udev''\<rparr>]
      else []) @
     map (directoryMount X) (Directories s)"
    by (rule provisionOSDContainer_VolumeMounts)
next
  show "\<exists>t. provisionPodTemplateSpec X c devices s resources storeConfig metadataDevice nodeName
          location restart = Inr t \<and>
        Volumes (Template_Spec t) =
          PodVolumes (opspec X) (dataDirHostPath c) @
          [\<lparr>Volume_Name = rookBinariesVolumeName, Volume_Source = EmptyDir\<rparr>] @
          (if devices \<noteq> [] \<or> DeviceFilter s \<noteq> [] \<or> GetUseAllDevices s \<or>
              metadataDevice \<noteq> []
           then [\<lparr>Volume_Name = ''devices'', Volume_Source = HostPath ''/dev''\<rparr>,
                 \<lparr>Volume_Name = ''udev'', Volume_Source = HostPath ''/run/udev''\<rparr>]
           else []) @
          map (directoryVolume X) (Directories s)"
    using provisionPodTemplateSpec_volumes [of X c devices s resources storeConfig
        metadataDevice nodeName location restart]
    by (auto simp add: directoryVolume_def)
qed

theorem C3_selector_priority_witness:
  "provisionOSDContainer examplePackages exampleCluster exampleDevices exampleFilterAndAll
     noResources exampleStoreConfig [] ''node1'' [] binariesMount =
   provisionOSDContainer examplePackages exampleCluster exampleDevices noSelection
     noResources exampleStoreConfig [] ''node1'' [] binariesMount \<and>
   provisionOSDContainer examplePackages exampleCluster [] exampleFilterAndAll
     noResources exampleStoreConfig [] ''node1'' [] binariesMount =
   provisionOSDContainer examplePackages exampleCluster []
     (exampleFilterAndAll\<lparr>UseAllDevices := None\<rparr>)
     noResources exampleStoreConfig [] ''node1'' [] binariesMount \<and>
   drop 12 (Env (provisionOSDContainer examplePackages exampleCluster exampleDevices
     exampleFilterAndAll noResources exampleStoreConfig [] ''node1'' [] binariesMount)) =
     [envVar ''ROOK_DATA_DEVICES'' ''sda,sdb''] \<and>
   drop 12 (Env (provisionOSDContainer examplePackages exampleCluster []
     exampleFilterAndAll noResources exampleStoreConfig [] ''node1'' [] binariesMount)) =
     [envVar ''ROOK_DATA_DEVICE_FILTER'' ''^sd.'']"
proof -
  note a = C3_selector_priority [of exampleDevices exampleFilterAndAll noSelection
      examplePackages exampleCluster noResources exampleStoreConfig "[]" "''node1''" "[]"
      binariesMount RestartPolicyOnFailure]
  note b = C3_selector_priority [of "[]" "exampleFilterAndAll\<lparr>UseAllDevices := None\<rparr>"
      exampleFilterAndAll examplePackages exampleCluster noResources exampleStoreConfig "[]"
      "''node1''" "[]" binariesMount RestartPolicyOnFailure]
  note e1 = C3_selector_priority [of exampleDevices exampleFilterAndAll exampleFilterAndAll
      examplePackages exampleCluster noResources exampleStoreConfig "[]" "''node1''" "[]"
      binariesMount RestartPolicyOnFailure]
  note e2 = C3_selector_priority [of "[]" exampleFilterAndAll exampleFilterAndAll
      examplePackages exampleCluster noResources exampleStoreConfig "[]" "''node1''" "[]"
      binariesMount RestartPolicyOnFailure]
  have s: "exampleDevices \<noteq> []" "Directories exampleFilterAndAll = []"
    "Directories noSelection = []" "DeviceFilter exampleFilterAndAll = ''^sd.''"
    "map Device_Name exampleDevices = [''sda'', ''sdb'']"
    by (simp_all add: exampleDevices_def exampleFilterAndAll_def noSelection_def)
  have g: "length (getConfigEnvVars examplePackages exampleCluster exampleStoreConfig
      (DataDir (k8sutil examplePackages)) ''node1'' []) = 12"
    by (simp add: getConfigEnvVars_def Let_def exampleStoreConfig_def)
  have 1: "provisionOSDContainer examplePackages exampleCluster exampleDevices
     exampleFilterAndAll noResources exampleStoreConfig [] ''node1'' [] binariesMount =
   provisionOSDContainer examplePackages exampleCluster exampleDevices noSelection
     noResources exampleStoreConfig [] ''node1'' [] binariesMount"
    using a s by simp
  have 2: "provisionOSDContainer examplePackages exampleCluster [] exampleFilterAndAll
     noResources exampleStoreConfig [] ''node1'' [] binariesMount =
   provisionOSDContainer examplePackages exampleCluster []
     (exampleFilterAndAll\<lparr>UseAllDevices := None\<rparr>)
     noResources exampleStoreConfig [] ''node1'' [] binariesMount"
    using b s by simp
  have 3: "drop 12 (Env (provisionOSDContainer examplePackages exampleCluster exampleDevices
     exampleFilterAndAll noResources exampleStoreConfig [] ''node1'' [] binariesMount)) =
     [envVar ''ROOK_DATA_DEVICES'' ''sda,sdb'']"
    using e1 s g by (simp add: deviceSelectorEnvVars_def dataDevicesEnvVar_def)
  have 4: "drop 12 (Env (provisionOSDContainer examplePackages exampleCluster []
     exampleFilterAndAll noResources exampleStoreConfig [] ''node1'' [] binariesMount)) =
     [envVar ''ROOK_DATA_DEVICE_FILTER'' ''^sd.'']"
    using e2 s g by (simp add: deviceSelectorEnvVars_def deviceFilterEnvVar_def)
  show ?thesis using 1 2 3 4 by simp
qed

text \<open>
  Claim C5. For a directory-backed OSD for which \<open>makeDeployment\<close> builds a
  deployment: when the parent directory of the data path is the default data
  directory, the volumes of the pod and the mounts of the daemon and of the init
  container are the default ones and nothing is added; otherwise exactly one
  host-path volume for the parent directory is appended to the pod's volumes and
  one mount of it to the mounts of the daemon container and of the init container.
  In both cases the config container is the only init container, and with a parent
  directory other than the default a deployment is always built.
\<close>

theorem C5_directory_mount:
  "(IsDirectory osdInfo \<and> filepath_Dir (DataPath osdInfo) \<noteq> DataDir (k8sutil X) \<longrightarrow>
      (\<exists>d. makeDeployment X c nodeName devices selection resources storeConfig metadataDevice
             location osdInfo = Inr d)) \<and>
   (\<forall>d. IsDirectory osdInfo \<and>
        makeDeployment X c nodeName devices selection resources storeConfig metadataDevice
          location osdInfo = Inr d \<longrightarrow>
      InitContainers (podOf d) = [configInitOf d] \<and>
      Containers (podOf d) = [daemonOf d] \<and>
      (if filepath_Dir (DataPath osdInfo) = DataDir (k8sutil X) then
         Volumes (podOf d) = PodVolumes (opspec X) (dataDirHostPath c) \<and>
         VolumeMounts (daemonOf d) = CephVolumeMounts (opspec X) \<and>
         VolumeMounts (configInitOf d) = RookVolumeMounts (opspec X)
       else
         Volumes (podOf d) =
           PodVolumes (opspec X) (dataDirHostPath c) @
             [\<lparr>Volume_Name = PathToVolumeName (k8sutil X) (filepath_Dir (DataPath osdInfo)),
               Volume_Source = HostPath (filepath_Dir (DataPath osdInfo))\<rparr>] \<and>
         VolumeMounts (daemonOf d) =
           CephVolumeMounts (opspec X) @
             [\<lparr>Mount_Name = PathToVolumeName (k8sutil X) (filepath_Dir (DataPath osdInfo)),
               MountPath = filepath_Dir (DataPath osdInfo)\<rparr>] \<and>
         VolumeMounts (configInitOf d) =
           RookVolumeMounts (opspec X) @
             [\<lparr>Mount_Name = PathToVolumeName (k8sutil X) (filepath_Dir (DataPath osdInfo)),
               MountPath = filepath_Dir (DataPath osdInfo)\<rparr>]))"
proof (intro conjI impI allI)
  assume "IsDirectory osdInfo \<and> filepath_Dir (DataPath osdInfo) \<noteq> DataDir (k8sutil X)"
  then show "\<exists>d. makeDeployment X c nodeName devices selection resources storeConfig
      metadataDevice location osdInfo = Inr d"
    by (simp add: makeDeployment_builds)
next
  fix d
  assume a: "IsDirectory osdInfo \<and>
      makeDeployment X c nodeName devices selection resources storeConfig metadataDevice
        location osdInfo = Inr d"
  then have dir: "IsDirectory osdInfo"
    and d: "makeDeployment X c nodeName devices selection resources storeConfig metadataDevice
        location osdInfo = Inr d"
    by simp_all
  from dir have nostage: "\<not> (\<not> IsDirectory osdInfo \<and> IsFileStore osdInfo)" by simp
  show "InitContainers (podOf d) = [configInitOf d]"
    using d nostage by (rule makeDeployment_direct)
  show "Containers (podOf d) = [daemonOf d]"
    using d by (rule makeDeployment_containers)
  show "if filepath_Dir (DataPath osdInfo) = DataDir (k8sutil X) then
         Volumes (podOf d) = PodVolumes (opspec X) (dataDirHostPath c) \<and>
         VolumeMounts (daemonOf d) = CephVolumeMounts (opspec X) \<and>
         VolumeMounts (configInitOf d) = RookVolumeMounts (opspec X)
       else
         Volumes (podOf d) =
           PodVolumes (opspec X) (dataDirHostPath c) @
             [\<lparr>Volume_Name = PathToVolumeName (k8sutil X) (filepath_Dir (DataPath osdInfo)),
               Volume_Source = HostPath (filepath_Dir (DataPath osdInfo))\<rparr>] \<and>
         VolumeMounts (daemonOf d) =
           CephVolumeMounts (opspec X) @
             [\<lparr>Mount_Name = PathToVolumeName (k8sutil X) (filepath_Dir (DataPath osdInfo)),
               MountPath = filepath_Dir (DataPath osdInfo)\<rparr>] \<and>
         VolumeMounts (configInitOf d) =
           RookVolumeMounts (opspec X) @
             [\<lparr>Mount_Name = PathToVolumeName (k8sutil X) (filepath_Dir (DataPath osdInfo)),
               MountPath = filepath_Dir (DataPath osdInfo)\<rparr>]"
  proof (cases "filepath_Dir (DataPath osdInfo) = DataDir (k8sutil X)")
    case True
    show ?thesis
      using True makeDeployment_directory_default [OF d dir True] by simp
  next
    case False
    show ?thesis
      using False makeDeployment_directory_other [OF d dir False] by simp
  qed
qed

theorem C5_directory_mount_witness:
  "(\<exists>d. makeDeployment examplePackages exampleCluster ''node1'' [] noSelection noResources
          exampleStoreConfig [] [] (exampleOSD\<lparr>IsDirectory := True\<rparr>) = Inr d \<and>
        map Volume_Name (Volumes (podOf d)) = [''rook-data'', ''rook-config-override''] \<and>
        map MountPath (VolumeMounts (daemonOf d)) = [''/var/lib/rook'', ''/etc/rook/config'']) \<and>
   (\<exists>d. makeDeployment examplePackages exampleCluster ''node1'' [] noSelection noResources
          exampleStoreConfig [] []
          (exampleOSD\<lparr>IsDirectory := True, DataPath := ''/mnt/data/osd3''\<rparr>) = Inr d \<and>
        drop 2 (Volumes (podOf d)) =
          [\<lparr>Volume_Name = ''-mnt-data'', Volume_Source = HostPath ''/mnt/data''\<rparr>] \<and>
        map MountPath (VolumeMounts (daemonOf d)) =
          [''/var/lib/rook'', ''/etc/rook/config'', ''/mnt/data''] \<and>
        map MountPath (VolumeMounts (configInitOf d)) =
          [''/var/lib/rook'', ''/etc/rook/config'', ''/mnt/data''])"
proof -
  let ?mk = "makeDeployment examplePackages exampleCluster ''node1'' [] noSelection noResources
      exampleStoreConfig [] []"
  let ?o1 = "exampleOSD\<lparr>IsDirectory := True\<rparr>"
  let ?o2 = "exampleOSD\<lparr>IsDirectory := True, DataPath := ''/mnt/data/osd3''\<rparr>"
  note a = C5_directory_mount [of ?o1 examplePackages exampleCluster "''node1''" "[]"
      noSelection noResources exampleStoreConfig "[]" "[]"]
  note b = C5_directory_mount [of ?o2 examplePackages exampleCluster "''node1''" "[]"
      noSelection noResources exampleStoreConfig "[]" "[]"]
  have k: "DataDir (k8sutil examplePackages) = ''/var/lib/rook''"
    "PodVolumes (opspec examplePackages) (dataDirHostPath exampleCluster) \<noteq> []"
    "map Volume_Name (PodVolumes (opspec examplePackages) (dataDirHostPath exampleCluster)) =
       [''rook-data'', ''rook-config-override'']"
    "length (PodVolumes (opspec examplePackages) (dataDirHostPath exampleCluster)) = 2"
    "map MountPath (CephVolumeMounts (opspec examplePackages)) =
       [''/var/lib/rook'', ''/etc/rook/config'']"
    "map MountPath (RookVolumeMounts (opspec examplePackages)) =
       [''/var/lib/rook'', ''/etc/rook/config'']"
    "PathToVolumeName (k8sutil examplePackages) ''/mnt/data'' = ''-mnt-data''"
    by (simp_all add: examplePackages_def example_k8sutil_def example_opspec_def)
  have o: "IsDirectory ?o1" "IsDirectory ?o2"
    "filepath_Dir (DataPath ?o1) = ''/var/lib/rook''"
    "filepath_Dir (DataPath ?o2) = ''/mnt/data''"
    by (simp_all add: exampleOSD_def example_paths)
  obtain d1 where d1: "?mk ?o1 = Inr d1"
    using makeDeployment_builds [of ?o1 examplePackages exampleCluster] k(2) by blast
  obtain d2 where d2: "?mk ?o2 = Inr d2" using b o k(1) by auto
  have f1: "map Volume_Name (Volumes (podOf d1)) = [''rook-data'', ''rook-config-override''] \<and>
        map MountPath (VolumeMounts (daemonOf d1)) = [''/var/lib/rook'', ''/etc/rook/config'']"
    using a d1 o k by simp
  have f2: "drop 2 (Volumes (podOf d2)) =
          [\<lparr>Volume_Name = ''-mnt-data'', Volume_Source = HostPath ''/mnt/data''\<rparr>] \<and>
        map MountPath (VolumeMounts (daemonOf d2)) =
          [''/var/lib/rook'', ''/etc/rook/config'', ''/mnt/data''] \<and>
        map MountPath (VolumeMounts (configInitOf d2)) =
          [''/var/lib/rook'', ''/etc/rook/config'', ''/mnt/data'']"
    using b d2 o k by simp
  show ?thesis using d1 d2 f1 f2 by simp
qed

text \<open>
  Claim C4 as stated fails on the code. With no device, no filter, no use-all flag,
  no directory and no metadata device \<open>provisionPodTemplateSpec\<close> does not return
  \<open>empty volumes\<close>, not even when the pod has no default volumes: the volume of
  the staged binaries is always there.
\<close>

theorem C4_counterexample:
  "provisionPodTemplateSpec examplePackages exampleCluster [] noSelection noResources
     exampleStoreConfig [] ''node1'' [] RestartPolicyOnFailure \<noteq> Inl emptyVolumes \<and>
   provisionPodTemplateSpec noBaseVolumes exampleCluster [] noSelection noResources
     exampleStoreConfig [] ''node1'' [] RestartPolicyOnFailure \<noteq> Inl emptyVolumes \<and>
   DeviceFilter noSelection = [] \<and> \<not> GetUseAllDevices noSelection \<and>
   Directories noSelection = []"
proof -
  obtain t1 where "provisionPodTemplateSpec examplePackages exampleCluster [] noSelection
      noResources exampleStoreConfig [] ''node1'' [] RestartPolicyOnFailure = Inr t1"
    using provisionPodTemplateSpec_volumes by blast
  moreover obtain t2 where "provisionPodTemplateSpec noBaseVolumes exampleCluster [] noSelection
      noResources exampleStoreConfig [] ''node1'' [] RestartPolicyOnFailure = Inr t2"
    using provisionPodTemplateSpec_volumes by blast
  ultimately show ?thesis
    by (simp add: noSelection_def GetUseAllDevices_def)
qed

text \<open>
  Claim C4, amended. \<open>provisionPodTemplateSpec\<close> never fails: for every input it
  builds a pod whose volumes contain the \<open>rook-binaries\<close> volume, so its
  \<open>empty volumes\<close> branch is not taken, whatever the selectors are.
  \<open>makeDeployment\<close> returns \<open>empty volumes\<close> exactly when the pod has no default
  volumes and the OSD is directory-backed with the default data directory as the
  parent of its data path; it has no other error, and the selectors play no part.
\<close>

theorem C4_empty_volumes:
  "(\<exists>t. provisionPodTemplateSpec X c devices selection resources storeConfig metadataDevice
          nodeName location restart = Inr t \<and>
        \<lparr>Volume_Name = rookBinariesVolumeName, Volume_Source = EmptyDir\<rparr>
          \<in> set (Volumes (Template_Spec t))) \<and>
   (makeDeployment X c nodeName devices selection resources storeConfig metadataDevice location
      osdInfo = Inl emptyVolumes \<longleftrightarrow>
    PodVolumes (opspec X) (dataDirHostPath c) = [] \<and> IsDirectory osdInfo \<and>
    filepath_Dir (DataPath osdInfo) = DataDir (k8sutil X)) \<and>
   (\<forall>e. makeDeployment X c nodeName devices selection resources storeConfig metadataDevice
          location osdInfo = Inl e \<longrightarrow> e = emptyVolumes)"
proof (intro conjI)
  obtain t where t: "provisionPodTemplateSpec X c devices selection resources storeConfig
      metadataDevice nodeName location restart = Inr t"
    and v: "Volumes (Template_Spec t) =
          PodVolumes (opspec X) (dataDirHostPath c) @
          [\<lparr>Volume_Name = rookBinariesVolumeName, Volume_Source = EmptyDir\<rparr>] @
          (if devices \<noteq> [] \<or> DeviceFilter selection \<noteq> [] \<or> GetUseAllDevices selection \<or>
              metadataDevice \<noteq> []
           then [\<lparr>Volume_Name = ''devices'', Volume_Source = HostPath ''/dev''\<rparr>,
                 \<lparr>Volume_Name = ''udev'', Volume_Source = HostPath ''/run/udev''\<rparr>]
           else []) @
          map (\<lambda>d. \<lparr>Volume_Name = PathToVolumeName (k8sutil X) (Path d),
                      Volume_Source = HostPath (Path d)\<rparr>) (Directories selection)"
    using provisionPodTemplateSpec_volumes [of X c devices selection resources storeConfig
        metadataDevice nodeName location restart] by blast
  have "\<lparr>Volume_Name = rookBinariesVolumeName, Volume_Source = EmptyDir\<rparr>
      \<in> set (Volumes (Template_Spec t))"
    by (simp add: v)
  with t show "\<exists>t. provisionPodTemplateSpec X c devices selection resources storeConfig
      metadataDevice nodeName location restart = Inr t \<and>
      \<lparr>Volume_Name = rookBinariesVolumeName, Volume_Source = EmptyDir\<rparr>
        \<in> set (Volumes (Template_Spec t))"
    by blast
next
  show "makeDeployment X c nodeName devices selection resources storeConfig metadataDevice
      location osdInfo = Inl emptyVolumes \<longleftrightarrow>
    PodVolumes (opspec X) (dataDirHostPath c) = [] \<and> IsDirectory osdInfo \<and>
    filepath_Dir (DataPath osdInfo) = DataDir (k8sutil X)"
    by (simp add: makeDeployment_error_iff)
next
  show "\<forall>e. makeDeployment X c nodeName devices selection resources storeConfig metadataDevice
      location osdInfo = Inl e \<longrightarrow> e = emptyVolumes"
    by (simp add: makeDeployment_error_iff)
qed

theorem C4_empty_volumes_witness:
  "makeDeployment noBaseVolumes exampleCluster ''node1'' [] noSelection noResources
     exampleStoreConfig [] [] (exampleOSD\<lparr>IsDirectory := True\<rparr>) = Inl emptyVolumes \<and>
   makeDeployment examplePackages exampleCluster ''node1'' [] noSelection noResources
     exampleStoreConfig [] [] (exampleOSD\<lparr>IsDirectory := True\<rparr>) \<noteq> Inl emptyVolumes \<and>
   (\<exists>t. provisionPodTemplateSpec noBaseVolumes exampleCluster [] noSelection noResources
          exampleStoreConfig [] ''node1'' [] RestartPolicyOnFailure = Inr t \<and>
        Volumes (Template_Spec t) =
          [\<lparr>Volume_Name = ''rook-binaries'', Volume_Source = EmptyDir\<rparr>])"
proof -
  let ?o = "exampleOSD\<lparr>IsDirectory := True\<rparr>"
  note a = C4_empty_volumes [of noBaseVolumes exampleCluster "[]" noSelection noResources
      exampleStoreConfig "[]" "''node1''" "[]" RestartPolicyOnFailure ?o]
  note b = C4_empty_volumes [of examplePackages exampleCluster "[]" noSelection noResources
      exampleStoreConfig "[]" "''node1''" "[]" RestartPolicyOnFailure ?o]
  have k: "PodVolumes (opspec noBaseVolumes) (dataDirHostPath exampleCluster) = []"
    "PodVolumes (opspec examplePackages) (dataDirHostPath exampleCluster) \<noteq> []"
    "DataDir (k8sutil noBaseVolumes) = ''/var/lib/rook''"
    "IsDirectory ?o" "filepath_Dir (DataPath ?o) = ''/var/lib/rook''"
    by (simp_all add: noBaseVolumes_def examplePackages_def example_opspec_def
        example_k8sutil_def exampleOSD_def example_paths)
  have 1: "makeDeployment noBaseVolumes exampleCluster ''node1'' [] noSelection noResources
     exampleStoreConfig [] [] ?o = Inl emptyVolumes"
    using a k by simp
  have 2: "makeDeployment examplePackages exampleCluster ''node1'' [] noSelection noResources
     exampleStoreConfig [] [] ?o \<noteq> Inl emptyVolumes"
    using b k by simp
  obtain t where t: "provisionPodTemplateSpec noBaseVolumes exampleCluster [] noSelection
      noResources exampleStoreConfig [] ''node1'' [] RestartPolicyOnFailure = Inr t"
    using a by blast
  have "Volumes (Template_Spec t) = [\<lparr>Volume_Name = ''rook-binaries'', Volume_Source = EmptyDir\<rparr>]"
    using t provisionPodTemplateSpec_volumes [of noBaseVolumes exampleCluster "[]" noSelection
        noResources exampleStoreConfig "[]" "''node1''" "[]" RestartPolicyOnFailure]
    by (simp add: k noSelection_def GetUseAllDevices_def rookBinariesVolumeName_def)
  with 1 2 t show ?thesis by simp
qed

text \<open>
  Claim C10. The store configuration survives the trip through the environment of
  the provision container. Provided the variables made by the other packages do
  not use one of the five configuration names and the five configuration keys are
  distinct, \<open>getConfigFromContainer\<close> applied to the container that
  \<open>provisionOSDContainer\<close> builds has the store type, the database size, the WAL
  size, the journal size and the metadata device under their keys, each present
  exactly when the supplied value is not empty or zero, the sizes as decimal
  strings, and it has no other key.
\<close>

theorem C10_config_round_trip:
  assumes "\<forall>ev \<in> set (foreignEnvVars X c location). Env_Name ev \<notin> set configEnvVarNames"
    and "distinct (configKeys X)"
    and "cfg = getConfigFromContainer X
           (provisionOSDContainer X c devices selection resources storeConfig metadataDevice
              nodeName location m)"
  shows "cfg (StoreTypeKey (config X)) =
           (if StoreType storeConfig \<noteq> [] then Some (StoreType storeConfig) else None) \<and>
         cfg (DatabaseSizeMBKey (config X)) =
           (if DatabaseSizeMB storeConfig \<noteq> 0 then Some (Itoa (DatabaseSizeMB storeConfig))
            else None) \<and>
         cfg (WalSizeMBKey (config X)) =
           (if WalSizeMB storeConfig \<noteq> 0 then Some (Itoa (WalSizeMB storeConfig)) else None) \<and>
         cfg (JournalSizeMBKey (config X)) =
           (if JournalSizeMB storeConfig \<noteq> 0 then Some (Itoa (JournalSizeMB storeConfig))
            else None) \<and>
         cfg (MetadataDeviceKey (config X)) =
           (if metadataDevice \<noteq> [] then Some metadataDevice else None) \<and>
         dom cfg \<subseteq> set (configKeys X)"
proof -
  have "cfg = storeConfigEntries X storeConfig metadataDevice"
    using assms(1,3) by (simp add: getConfigFromContainer_provision)
  then show ?thesis
    using storeConfigEntries_lookup [OF assms(2), of storeConfig metadataDevice]
      storeConfigEntries_dom [of X storeConfig metadataDevice]
    by simp
qed

theorem C10_config_round_trip_witness:
  "getConfigFromContainer examplePackages
     (provisionOSDContainer examplePackages exampleCluster exampleDevices exampleDirectories
        noResources exampleStoreConfig ''nvme0n1'' ''node1'' ''rack1'' binariesMount)
     ''storeType'' = Some ''bluestore'' \<and>
   getConfigFromContainer examplePackages
     (provisionOSDContainer examplePackages exampleCluster exampleDevices exampleDirectories
        noResources exampleStoreConfig ''nvme0n1'' ''node1'' ''rack1'' binariesMount)
     ''databaseSizeMB'' = Some ''1024'' \<and>
   getConfigFromContainer examplePackages
     (provisionOSDContainer examplePackages exampleCluster exampleDevices exampleDirectories
        noResources exampleStoreConfig ''nvme0n1'' ''node1'' ''rack1'' binariesMount)
     ''walSizeMB'' = None \<and>
   getConfigFromContainer examplePackages
     (provisionOSDContainer examplePackages exampleCluster exampleDevices exampleDirectories
        noResources exampleStoreConfig ''nvme0n1'' ''node1'' ''rack1'' binariesMount)
     ''journalSizeMB'' = None \<and>
   getConfigFromContainer examplePackages
     (provisionOSDContainer examplePackages exampleCluster exampleDevices exampleDirectories
        noResources exampleStoreConfig ''nvme0n1'' ''node1'' ''rack1'' binariesMount)
     ''metadataDevice'' = Some ''nvme0n1''"
proof -
  have f: "\<forall>ev \<in> set (foreignEnvVars examplePackages exampleCluster ''rack1'').
      Env_Name ev \<notin> set configEnvVarNames"
    by (simp add: foreignEnvVars_def configEnvVarNames_def examplePackages_def
        example_k8sutil_def example_opmon_def fieldEnvVar_def envVar_def
        osdStoreEnvVarName_def osdDatabaseSizeEnvVarName_def osdWalSizeEnvVarName_def
        osdJournalSizeEnvVarName_def osdMetadataDeviceEnvVarName_def)
  have d: "distinct (configKeys examplePackages)"
    by (simp add: configKeys_def examplePackages_def example_config_def)
  have ks: "StoreTypeKey (config examplePackages) = ''storeType''"
    "DatabaseSizeMBKey (config examplePackages) = ''databaseSizeMB''"
    "WalSizeMBKey (config examplePackages) = ''walSizeMB''"
    "JournalSizeMBKey (config examplePackages) = ''journalSizeMB''"
    "MetadataDeviceKey (config examplePackages) = ''metadataDevice''"
    by (simp_all add: examplePackages_def example_config_def)
  have sc: "StoreType exampleStoreConfig = ''bluestore''"
    "DatabaseSizeMB exampleStoreConfig = 1024" "WalSizeMB exampleStoreConfig = 0"
    "JournalSizeMB exampleStoreConfig = 0"
    by (simp_all add: exampleStoreConfig_def)
  note r = C10_config_round_trip [OF f d refl, of exampleDevices exampleDirectories
      noResources exampleStoreConfig "''nvme0n1''" "''node1''" binariesMount]
  show ?thesis
    using r unfolding ks sc by (simp add: example_Itoa)
qed

section \<open>Properties of the gateway controller\<close>

lemma graceWarned_append:
  "graceWarned w h xs \<Longrightarrow> graceWarned w (h @ xs) ys \<Longrightarrow> graceWarned w h (xs @ ys)"
proof (induction xs arbitrary: h)
  case Nil
  then show ?case by simp
next
  case (Cons ev xs)
  have "graceWarned w (h @ [ev]) (xs @ ys)"
    using Cons.IH [of "h @ [ev]"] Cons.prems by simp
  moreover have "isGrace ev \<and> answer w h ev \<noteq> None \<longrightarrow>
      xs @ ys \<noteq> [] \<and> isWarning (hd (xs @ ys))"
    using Cons.prems(1) by (simp add: hd_append)
  ultimately show ?case by simp
qed

lemma graceWarned_quiet:
  "\<forall>ev \<in> set xs. \<not> isGrace ev \<Longrightarrow> graceWarned w h xs"
  by (induction xs arbitrary: h) auto

lemma filter_quiet: "\<forall>ev \<in> set xs. \<not> isGrace ev \<Longrightarrow> filter isGrace xs = []"
  by (induction xs) auto

lemma event_kinds [simp]:
  "isGrace (graceCommand n action name)"
  "\<not> isGrace (CreateConfigMap ns cm)" "\<not> isGrace (UpdateConfigMap ns cm)"
  "\<not> isGrace (CreateDeployment ns d)" "\<not> isGrace (CreateService ns svc)"
  "\<not> isGrace (DeleteDeployment ns name)" "\<not> isGrace (DeleteService ns name)"
  "\<not> isGrace (Infof f args)" "\<not> isGrace (Warningf f args err)"
  "isCall (graceCommand n action name)"
  "isCall (CreateConfigMap ns cm)" "isCall (UpdateConfigMap ns cm)"
  "isCall (CreateDeployment ns d)" "isCall (CreateService ns svc)"
  "isCall (DeleteDeployment ns name)" "isCall (DeleteService ns name)"
  "\<not> isCall (Infof f args)" "\<not> isCall (Warningf f args err)"
  "isWarning (Warningf f args err)" "\<not> isWarning (Infof f args)"
  "\<not> isWarning (graceCommand n action name)"
  "\<not> isWarning (DeleteDeployment ns name)" "\<not> isWarning (DeleteService ns name)"
  by (simp_all add: isGrace_def isCall_def isWarning_def graceCommand_def)

lemma deleteGanesha_body_trace:
  "\<exists>new. deleteGanesha_body n w i tr = tr @ new \<and>
         filter isCall new = deleteCalls n i \<and>
         filter isGrace new = [graceCommand n ''remove'' (identityOf i)] \<and>
         graceWarned w tr new"
  by (auto simp add: deleteGanesha_body_def removeServerFromDatabase_def call_def logf_def
      Let_def deleteCalls_def IsNotFound_def graceCommand_def isGrace_def isCall_def isWarning_def
      split: option.splits prod.splits)

lemma deletionsFindNothing_answers:
  assumes "deletionsFindNothing w"
  shows "answer w h (graceCommand n action name) = None"
    and "answer w h (DeleteService ns x) = None \<or> answer w h (DeleteService ns x) = Some NotFound"
proof -
  show "answer w h (graceCommand n action name) = None"
    using assms [unfolded deletionsFindNothing_def, rule_format, of h "graceCommand n action name"]
    by (simp add: graceCommand_def)
  show "answer w h (DeleteService ns x) = None \<or> answer w h (DeleteService ns x) = Some NotFound"
    using assms [unfolded deletionsFindNothing_def, rule_format, of h "DeleteService ns x"]
    by simp
qed

lemma deleteGanesha_body_silent:
  assumes "deletionsFindNothing w"
  shows "deleteGanesha_body n w i tr =
           tr @ Infof ''Removing ganesha %s from grace db'' [identityOf i] # deleteCalls n i"
proof -
  let ?t1 = "tr @ [Infof ''Removing ganesha %s from grace db'' [identityOf i]]"
  let ?t3 = "?t1 @ [graceCommand n ''remove'' (identityOf i),
      DeleteDeployment (NFS_Namespace n) (instanceName n (identityOf i))]"
  have a: "answer w ?t1 (graceCommand n ''remove'' (identityOf i)) = None"
    using assms by (rule deletionsFindNothing_answers)
  have b: "answer w ?t3 (DeleteService (NFS_Namespace n) (instanceName n (identityOf i))) = None \<or>
      answer w ?t3 (DeleteService (NFS_Namespace n) (instanceName n (identityOf i))) =
        Some NotFound"
    using assms by (rule deletionsFindNothing_answers)
  from b show ?thesis
  proof
    assume "answer w ?t3 (DeleteService (NFS_Namespace n) (instanceName n (identityOf i))) = None"
    then show ?thesis
      using a by (simp add: deleteGanesha_body_def removeServerFromDatabase_def call_def
          logf_def Let_def deleteCalls_def)
  next
    assume "answer w ?t3 (DeleteService (NFS_Namespace n) (instanceName n (identityOf i))) =
        Some NotFound"
    then show ?thesis
      using a by (simp add: deleteGanesha_body_def removeServerFromDatabase_def call_def
          logf_def Let_def deleteCalls_def IsNotFound_def)
  qed
qed

lemma upt_from: "i < m \<Longrightarrow> [i..<m] = i # [Suc i..<m]"
  by (simp add: upt_conv_Cons)

lemma deleteGanesha_loop_trace:
  "\<exists>new. deleteGanesha_loop n w i tr = (None, tr @ new) \<and>
         filter isCall new = concat (map (deleteCalls n) [i..<nat (Active (Server (Spec n)))]) \<and>
         filter isGrace new =
           map (\<lambda>j. graceCommand n ''remove'' (identityOf j))
             [i..<nat (Active (Server (Spec n)))] \<and>
         graceWarned w tr new"
proof (induction n w i tr rule: deleteGanesha_loop.induct)
  case (1 n w i tr)
  show ?case
  proof (cases "int i < Active (Server (Spec n))")
    case False
    then have "[i..<nat (Active (Server (Spec n)))] = []" by simp
    then show ?thesis using False by (simp add: deleteGanesha_loop.simps [of n w i tr])
  next
    case True
    then have up: "[i..<nat (Active (Server (Spec n)))] =
        i # [Suc i..<nat (Active (Server (Spec n)))]"
      by (intro upt_from) linarith
    obtain new1 where b: "deleteGanesha_body n w i tr = tr @ new1"
      and c1: "filter isCall new1 = deleteCalls n i"
      and g1: "filter isGrace new1 = [graceCommand n ''remove'' (identityOf i)]"
      and w1: "graceWarned w tr new1"
      using deleteGanesha_body_trace by blast
    obtain new2 where l: "deleteGanesha_loop n w (Suc i) (tr @ new1) = (None, (tr @ new1) @ new2)"
      and c2: "filter isCall new2 =
          concat (map (deleteCalls n) [Suc i..<nat (Active (Server (Spec n)))])"
      and g2: "filter isGrace new2 =
          map (\<lambda>j. graceCommand n ''remove'' (identityOf j))
            [Suc i..<nat (Active (Server (Spec n)))]"
      and w2: "graceWarned w (tr @ new1) new2"
      using "1.IH" [OF True] b by auto
    have "deleteGanesha_loop n w i tr = (None, tr @ (new1 @ new2))"
      using True b l by (simp add: deleteGanesha_loop.simps [of n w i tr])
    moreover have "filter isCall (new1 @ new2) =
        concat (map (deleteCalls n) [i..<nat (Active (Server (Spec n)))])"
      by (simp add: up c1 c2)
    moreover have "filter isGrace (new1 @ new2) =
        map (\<lambda>j. graceCommand n ''remove'' (identityOf j)) [i..<nat (Active (Server (Spec n)))]"
      by (simp add: up g1 g2)
    moreover have "graceWarned w tr (new1 @ new2)"
      using w1 w2 by (rule graceWarned_append)
    ultimately show ?thesis by blast
  qed
qed

lemma deleteGanesha_loop_silent:
  "deletionsFindNothing w \<Longrightarrow>
   \<exists>new. deleteGanesha_loop n w i tr = (None, tr @ new) \<and> filter isWarning new = []"
proof (induction n w i tr rule: deleteGanesha_loop.induct)
  case (1 n w i tr)
  show ?case
  proof (cases "int i < Active (Server (Spec n))")
    case False
    then show ?thesis by (simp add: deleteGanesha_loop.simps [of n w i tr])
  next
    case True
    let ?new1 = "Infof ''Removing ganesha %s from grace db'' [identityOf i] # deleteCalls n i"
    have b: "deleteGanesha_body n w i tr = tr @ ?new1"
      using "1.prems" by (rule deleteGanesha_body_silent)
    obtain new2 where l: "deleteGanesha_loop n w (Suc i) (tr @ ?new1) = (None, (tr @ ?new1) @ new2)"
      and s2: "filter isWarning new2 = []"
      using "1.IH" [OF True "1.prems"] b by auto
    have "deleteGanesha_loop n w i tr = (None, tr @ (?new1 @ new2))"
      using True b l by (simp add: deleteGanesha_loop.simps [of n w i tr])
    moreover have "filter isWarning (?new1 @ new2) = []"
      using s2 by (simp add: deleteCalls_def)
    ultimately show ?thesis by blast
  qed
qed

lemma acceptsCreation_answers:
  assumes "acceptsCreation w"
  shows "answer w h (CreateConfigMap ns cm) = None \<or>
         answer w h (CreateConfigMap ns cm) = Some AlreadyExists"
    and "answer w h (UpdateConfigMap ns cm) = None"
    and "answer w h (CreateDeployment ns d) = None \<or>
         answer w h (CreateDeployment ns d) = Some AlreadyExists"
    and "answer w h (CreateService ns svc) = None \<or>
         answer w h (CreateService ns svc) = Some AlreadyExists"
proof -
  note a = assms [unfolded acceptsCreation_def, rule_format]
  show "answer w h (CreateConfigMap ns cm) = None \<or>
         answer w h (CreateConfigMap ns cm) = Some AlreadyExists"
    using a [of h "CreateConfigMap ns cm"] by simp
  show "answer w h (UpdateConfigMap ns cm) = None"
    using a [of h "UpdateConfigMap ns cm"] by simp
  show "answer w h (CreateDeployment ns d) = None \<or>
         answer w h (CreateDeployment ns d) = Some AlreadyExists"
    using a [of h "CreateDeployment ns d"] by simp
  show "answer w h (CreateService ns svc) = None \<or>
         answer w h (CreateService ns svc) = Some AlreadyExists"
    using a [of h "CreateService ns svc"] by simp
qed

lemma generateConfig_cases:
  "generateConfig X n name w tr =
     (let cm = ganeshaConfigMap X n name;
          create = CreateConfigMap (NFS_Namespace n) cm;
          update = UpdateConfigMap (NFS_Namespace n) cm
      in case answer w tr create of
           None \<Rightarrow> (Inr (Meta_Name (ConfigMap_Meta cm)), tr @ [create])
         | Some err \<Rightarrow>
             if err = AlreadyExists then
               (case answer w (tr @ [create]) update of
                  None \<Rightarrow> (Inr (Meta_Name (ConfigMap_Meta cm)), tr @ [create, update])
                | Some err' \<Rightarrow>
                    (Inl (Errorf ''failed to update ganesha config. %+v'' [] (Some err')),
                     tr @ [create, update]))
             else (Inl (Errorf ''failed to create ganesha config. %+v'' [] (Some err)),
                   tr @ [create]))"
  by (simp add: generateConfig_def call_def Let_def IsAlreadyExists_def split: option.splits)

lemma generateConfig_accepts:
  assumes "acceptsCreation w"
  shows "\<exists>new. generateConfig X n name w tr =
           (Inr (Meta_Name (ConfigMap_Meta (ganeshaConfigMap X n name))), tr @ new) \<and>
         (\<forall>ev \<in> set new. \<not> isGrace ev)"
proof -
  let ?cm = "ganeshaConfigMap X n name"
  have u: "answer w (tr @ [CreateConfigMap (NFS_Namespace n) ?cm])
      (UpdateConfigMap (NFS_Namespace n) ?cm) = None"
    using assms by (rule acceptsCreation_answers)
  have "answer w tr (CreateConfigMap (NFS_Namespace n) ?cm) = None \<or>
      answer w tr (CreateConfigMap (NFS_Namespace n) ?cm) = Some AlreadyExists"
    using assms by (rule acceptsCreation_answers)
  then show ?thesis
  proof
    assume "answer w tr (CreateConfigMap (NFS_Namespace n) ?cm) = None"
    then show ?thesis by (simp add: generateConfig_cases Let_def)
  next
    assume "answer w tr (CreateConfigMap (NFS_Namespace n) ?cm) = Some AlreadyExists"
    then show ?thesis using u by (simp add: generateConfig_cases Let_def)
  qed
qed

lemma createGaneshaService_accepts:
  assumes "acceptsCreation w"
  shows "\<exists>new. createGaneshaService X c n name w tr = (None, tr @ new) \<and>
         (\<forall>ev \<in> set new. \<not> isGrace ev)"
proof -
  let ?svc = "ganeshaService X c n name"
  have "answer w tr (CreateService (NFS_Namespace n) ?svc) = None \<or>
      answer w tr (CreateService (NFS_Namespace n) ?svc) = Some AlreadyExists"
    using assms by (rule acceptsCreation_answers)
  then show ?thesis
  proof
    assume "answer w tr (CreateService (NFS_Namespace n) ?svc) = None"
    then show ?thesis
      by (simp add: createGaneshaService_def call_def logf_def Let_def)
  next
    assume "answer w tr (CreateService (NFS_Namespace n) ?svc) = Some AlreadyExists"
    then show ?thesis
      by (simp add: createGaneshaService_def call_def logf_def Let_def IsAlreadyExists_def)
  qed
qed

lemma addServerToDatabase_trace:
  "addServerToDatabase n name w tr =
     (answer w (tr @ [Infof ''Adding ganesha %s to grace db'' [name]])
        (graceCommand n ''add'' name),
      tr @ [Infof ''Adding ganesha %s to grace db'' [name], graceCommand n ''add'' name])"
  by (simp add: addServerToDatabase_def call_def logf_def Let_def)

lemma createGanesha_body_accepts:
  assumes "acceptsCreation w"
  shows "\<exists>new. createGanesha_body X c n w i tr = (None, tr @ new) \<and>
         filter isGrace new = [graceCommand n ''add'' (identityOf i)] \<and>
         graceWarned w tr new"
proof -
  let ?name = "identityOf i"
  let ?cfg = "Meta_Name (ConfigMap_Meta (ganeshaConfigMap X n ?name))"
  let ?d = "nfs_makeDeployment X c n ?name ?cfg"
  let ?cd = "CreateDeployment (NFS_Namespace n) ?d"
  obtain new1 where g: "generateConfig X n ?name w tr = (Inr ?cfg, tr @ new1)"
    and q1: "\<forall>ev \<in> set new1. \<not> isGrace ev"
    using generateConfig_accepts [OF assms] by blast
  have ad: "answer w (tr @ new1) ?cd = None \<or> answer w (tr @ new1) ?cd = Some AlreadyExists"
    using assms by (rule acceptsCreation_answers)
  define msg where "msg =
    (if answer w (tr @ new1) ?cd = None then ''ganesha deployment %s started''
     else ''ganesha deployment %s already exists'')"
  let ?t2 = "tr @ new1 @ [?cd, Infof msg [Meta_Name (Deployment_Meta ?d)]]"
  obtain new3 where s: "createGaneshaService X c n ?name w ?t2 = (None, ?t2 @ new3)"
    and q3: "\<forall>ev \<in> set new3. \<not> isGrace ev"
    using createGaneshaService_accepts [OF assms] by blast
  let ?pre = "new1 @ [?cd, Infof msg [Meta_Name (Deployment_Meta ?d)]] @ new3 @
      [Infof ''Adding ganesha %s to grace db'' [?name]]"
  let ?r = "answer w (tr @ ?pre) (graceCommand n ''add'' ?name)"
  define tail where "tail =
    (case ?r of
       None \<Rightarrow> []
     | Some err \<Rightarrow>
         [Warningf ''Failed to add ganesha server %s to database. It may already be added. %+v''
            [?name] (Some err)])"
  have body: "createGanesha_body X c n w i tr =
      (None, tr @ (?pre @ graceCommand n ''add'' ?name # tail))"
    using ad g s
    by (auto simp add: createGanesha_body_def call_def logf_def Let_def IsAlreadyExists_def
        addServerToDatabase_trace msg_def tail_def split: option.splits)
  have qpre: "\<forall>ev \<in> set ?pre. \<not> isGrace ev"
    using q1 q3 by auto
  have qtail: "\<forall>ev \<in> set tail. \<not> isGrace ev"
    by (auto simp add: tail_def split: option.splits)
  have "filter isGrace (?pre @ graceCommand n ''add'' ?name # tail) =
      [graceCommand n ''add'' ?name]"
    using filter_quiet [OF qpre] filter_quiet [OF qtail] by simp
  moreover have "graceWarned w tr (?pre @ graceCommand n ''add'' ?name # tail)"
  proof (rule graceWarned_append)
    show "graceWarned w tr ?pre" using qpre by (rule graceWarned_quiet)
    have "?r \<noteq> None \<longrightarrow> tail \<noteq> [] \<and> isWarning (hd tail)"
      by (auto simp add: tail_def)
    moreover have "graceWarned w ((tr @ ?pre) @ [graceCommand n ''add'' ?name]) tail"
      using qtail by (rule graceWarned_quiet)
    ultimately show "graceWarned w (tr @ ?pre) (graceCommand n ''add'' ?name # tail)"
      by simp
  qed
  ultimately show ?thesis using body by blast
qed

lemma createGanesha_loop_accepts:
  "acceptsCreation w \<Longrightarrow>
   \<exists>new. createGanesha_loop X c n w i tr = (None, tr @ new) \<and>
         filter isGrace new =
           map (\<lambda>j. graceCommand n ''add'' (identityOf j)) [i..<nat (Active (Server (Spec n)))] \<and>
         graceWarned w tr new"
proof (induction X c n w i tr rule: createGanesha_loop.induct)
  case (1 X c n w i tr)
  show ?case
  proof (cases "int i < Active (Server (Spec n))")
    case False
    then have "[i..<nat (Active (Server (Spec n)))] = []" by simp
    then show ?thesis using False by (simp add: createGanesha_loop.simps [of X c n w i tr])
  next
    case True
    then have up: "[i..<nat (Active (Server (Spec n)))] =
        i # [Suc i..<nat (Active (Server (Spec n)))]"
      by (intro upt_from) linarith
    obtain new1 where b: "createGanesha_body X c n w i tr = (None, tr @ new1)"
      and g1: "filter isGrace new1 = [graceCommand n ''add'' (identityOf i)]"
      and w1: "graceWarned w tr new1"
      using createGanesha_body_accepts [OF "1.prems"] by blast
    obtain new2 where l: "createGanesha_loop X c n w (Suc i) (tr @ new1) =
          (None, (tr @ new1) @ new2)"
      and g2: "filter isGrace new2 =
          map (\<lambda>j. graceCommand n ''add'' (identityOf j))
            [Suc i..<nat (Active (Server (Spec n)))]"
      and w2: "graceWarned w (tr @ new1) new2"
      using "1.IH" [OF True b [symmetric] refl "1.prems"] by blast
    have "createGanesha_loop X c n w i tr = (None, tr @ (new1 @ new2))"
      using True b l by (simp add: createGanesha_loop.simps [of X c n w i tr])
    moreover have "filter isGrace (new1 @ new2) =
        map (\<lambda>j. graceCommand n ''add'' (identityOf j)) [i..<nat (Active (Server (Spec n)))]"
      by (simp add: up g1 g2)
    moreover have "graceWarned w tr (new1 @ new2)"
      using w1 w2 by (rule graceWarned_append)
    ultimately show ?thesis by blast
  qed
qed

lemma validateGanesha_rejects:
  assumes "Active (Server (Spec n)) = 0 \<or> NFS_Name n = [] \<or> NFS_Namespace n = [] \<or>
      Store_Name (Store (Spec n)) = [] \<or> Pool (ClientRecovery (Spec n)) = [] \<or>
      Recovery_Namespace (ClientRecovery (Spec n)) = [] \<or> Exports (Spec n) = []"
  shows "validateGanesha n \<noteq> None"
  using assms by (auto simp add: validateGanesha_def split: option.splits)

lemma instanceName_inj: "instanceName n (identityOf i) = instanceName n (identityOf j) \<Longrightarrow> i = j"
  by (simp add: instanceName_def identityOf_inj)

lemma deleteCalls_before:
  assumes "j < i"
  shows "DeleteDeployment ns (instanceName n (identityOf i)) \<notin> set (deleteCalls n j)"
    and "DeleteService ns (instanceName n (identityOf i)) \<notin> set (deleteCalls n j)"
  using assms instanceName_inj [of n i j]
  by (auto simp add: deleteCalls_def graceCommand_def)

lemma upt_split: "i < m \<Longrightarrow> [0..<m] = [0..<i] @ i # [Suc i..<m]"
proof -
  assume "i < m"
  then have "[0..<i + (m - i)] = [0..<i] @ [i..<i + (m - i)]"
    by (intro upt_add_eq_append) simp
  then show ?thesis using \<open>i < m\<close> by (simp add: upt_conv_Cons)
qed

lemma nothingLeft_finds_nothing: "deletionsFindNothing nothingLeft"
  by (simp add: deletionsFindNothing_def nothingLeft_def split: event.splits)

lemma example_ordinals: "ordinals exampleGanesha = [0, 1]"
  by (simp add: ordinals_def exampleGanesha_def upt_conv_Cons)

lemma example_identities: "identityOf 0 = ''a''" "identityOf 1 = ''b''" "identityOf (Suc 0) = ''b''"
  by (simp_all add: identityOf.simps letter_def alphabet_def)

lemma createGanesha_body_error:
  "createGanesha_body X c n w i tr = (Some e, tr') \<Longrightarrow> stoppedByApiCall w tr'"
  by (auto simp add: createGanesha_body_def generateConfig_cases createGaneshaService_def
      addServerToDatabase_trace call_def logf_def Let_def IsAlreadyExists_def
      stoppedByApiCall_def butlast_append
      split: option.splits prod.splits sum.splits if_splits)

lemma createGanesha_loop_error:
  "createGanesha_loop X c n w i tr = (Some e, tr') \<Longrightarrow> stoppedByApiCall w tr'"
proof (induction X c n w i tr rule: createGanesha_loop.induct)
  case (1 X c n w i tr)
  show ?case
  proof (cases "int i < Active (Server (Spec n))")
    case False
    then show ?thesis using "1.prems" by (simp add: createGanesha_loop.simps [of X c n w i tr])
  next
    case True
    obtain r tr1 where b: "createGanesha_body X c n w i tr = (r, tr1)"
      by (cases "createGanesha_body X c n w i tr") auto
    show ?thesis
    proof (cases r)
      case None
      then have "createGanesha_loop X c n w (Suc i) tr1 = (Some e, tr')"
        using "1.prems" True b by (simp add: createGanesha_loop.simps [of X c n w i tr])
      then show ?thesis using "1.IH" [OF True b [symmetric]] None by simp
    next
      case (Some e1)
      then have "tr' = tr1"
        using "1.prems" True b by (simp add: createGanesha_loop.simps [of X c n w i tr])
      then show ?thesis using b Some createGanesha_body_error by blast
    qed
  qed
qed

lemma alreadyThere_accepts: "acceptsCreation alreadyThere"
  by (simp add: acceptsCreation_def alreadyThere_def split: event.splits)

text \<open>
  Claim C6. The deletion pass always returns without error and its calls are, for
  the ordinals in turn, the remove call of the recovery tool for the instance, then
  the deletion of its deployment, then the deletion of its service. For every
  ordinal of the pass no deletion of the instance's deployment or service occurs
  in the trace before these three calls, so the resources of an instance are never
  deleted before its remove call is issued. When the recovery tool succeeds and
  the deletions of services succeed or find nothing, no warning is logged: a
  not-found answer counts as success.
\<close>

theorem C6_remove_before_delete:
  "\<exists>new. deleteGanesha n w tr = (None, tr @ new) \<and>
      filter isCall new = concat (map (deleteCalls n) (ordinals n)) \<and>
      (\<forall>i \<in> set (ordinals n). \<exists>before after.
          filter isCall new = before @ deleteCalls n i @ after \<and>
          DeleteDeployment (NFS_Namespace n) (instanceName n (identityOf i)) \<notin> set before \<and>
          DeleteService (NFS_Namespace n) (instanceName n (identityOf i)) \<notin> set before) \<and>
      (deletionsFindNothing w \<longrightarrow> filter isWarning new = [])"
proof -
  obtain new where d: "deleteGanesha n w tr = (None, tr @ new)"
    and c: "filter isCall new = concat (map (deleteCalls n) (ordinals n))"
    using deleteGanesha_loop_trace [of n w 0 tr]
    by (auto simp add: deleteGanesha_def ordinals_def)
  have order: "\<exists>before after.
          filter isCall new = before @ deleteCalls n i @ after \<and>
          DeleteDeployment (NFS_Namespace n) (instanceName n (identityOf i)) \<notin> set before \<and>
          DeleteService (NFS_Namespace n) (instanceName n (identityOf i)) \<notin> set before"
    if "i \<in> set (ordinals n)" for i
  proof -
    let ?m = "nat (Active (Server (Spec n)))"
    let ?before = "concat (map (deleteCalls n) [0..<i])"
    let ?after = "concat (map (deleteCalls n) [Suc i..<?m])"
    have "i < ?m" using that by (simp add: ordinals_def)
    then have "ordinals n = [0..<i] @ i # [Suc i..<?m]"
      unfolding ordinals_def by (rule upt_split)
    then have "filter isCall new = ?before @ deleteCalls n i @ ?after"
      using c by simp
    moreover have "DeleteDeployment (NFS_Namespace n) (instanceName n (identityOf i))
        \<notin> set ?before"
      using deleteCalls_before(1) [of _ i "NFS_Namespace n" n] by auto
    moreover have "DeleteService (NFS_Namespace n) (instanceName n (identityOf i))
        \<notin> set ?before"
      using deleteCalls_before(2) [of _ i "NFS_Namespace n" n] by auto
    ultimately show ?thesis by blast
  qed
  have silent: "filter isWarning new = []" if dfn: "deletionsFindNothing w"
  proof -
    obtain new' where "deleteGanesha n w tr = (None, tr @ new')"
      and "filter isWarning new' = []"
      using deleteGanesha_loop_silent [OF dfn, of n 0 tr] by (auto simp add: deleteGanesha_def)
    then show ?thesis using d by simp
  qed
  show ?thesis using d c order silent by blast
qed

theorem C6_remove_before_delete_witness:
  "\<exists>new. deleteGanesha exampleGanesha nothingLeft [] = (None, new) \<and>
      filter isCall new =
        [ExecuteCommand ''ganesha-rados-grace''
           [''--pool'', ''myfs-data0'', ''--ns'', ''nfs-ns'', ''remove'', ''a''],
         DeleteDeployment ''rook-ceph'' ''rook-ceph-ganesha-my-nfs-a'',
         DeleteService ''rook-ceph'' ''rook-ceph-ganesha-my-nfs-a'',
         ExecuteCommand ''ganesha-rados-grace''
           [''--pool'', ''myfs-data0'', ''--ns'', ''nfs-ns'', ''remove'', ''b''],
         DeleteDeployment ''rook-ceph'' ''rook-ceph-ganesha-my-nfs-b'',
         DeleteService ''rook-ceph'' ''rook-ceph-ganesha-my-nfs-b''] \<and>
      filter isWarning new = []"
proof -
  obtain new where d: "deleteGanesha exampleGanesha nothingLeft [] = (None, [] @ new)"
    and c: "filter isCall new = concat (map (deleteCalls exampleGanesha) (ordinals exampleGanesha))"
    and s: "deletionsFindNothing nothingLeft \<longrightarrow> filter isWarning new = []"
    using C6_remove_before_delete [of exampleGanesha nothingLeft "[]"] by blast
  have "concat (map (deleteCalls exampleGanesha) (ordinals exampleGanesha)) =
        [ExecuteCommand ''ganesha-rados-grace''
           [''--pool'', ''myfs-data0'', ''--ns'', ''nfs-ns'', ''remove'', ''a''],
         DeleteDeployment ''rook-ceph'' ''rook-ceph-ganesha-my-nfs-a'',
         DeleteService ''rook-ceph'' ''rook-ceph-ganesha-my-nfs-a'',
         ExecuteCommand ''ganesha-rados-grace''
           [''--pool'', ''myfs-data0'', ''--ns'', ''nfs-ns'', ''remove'', ''b''],
         DeleteDeployment ''rook-ceph'' ''rook-ceph-ganesha-my-nfs-b'',
         DeleteService ''rook-ceph'' ''rook-ceph-ganesha-my-nfs-b'']"
    unfolding example_ordinals
    by (simp add: deleteCalls_def graceCommand_def instanceName_def
        nfs_appName_def example_identities exampleGanesha_def)
  then show ?thesis
    using d c s nothingLeft_finds_nothing by simp
qed

text \<open>
  Claim C7. A failure of the recovery tool never aborts a pass. Creation: when the
  specification is valid and the substrate accepts the creations, then whatever
  the recovery tool answers the pass returns without error, the add call has been
  issued once for every ordinal, in order, and every failed call of the tool is
  followed at once by a warning; and whenever the creation pass of a valid
  specification does return an error, its last event is an API call that failed,
  not a call of the recovery tool. Deletion: whatever the substrate answers, the
  pass returns without error, the remove call has been issued once for every
  ordinal, followed by the deletions of that ordinal, and every failed call of the
  tool is followed at once by a warning.
\<close>

theorem C7_recovery_failures_tolerated:
  "(validateGanesha n = None \<and> acceptsCreation w \<longrightarrow>
      (\<exists>new. createGanesha X c n w tr = (None, tr @ new) \<and>
         filter isGrace new = map (\<lambda>i. graceCommand n ''add'' (identityOf i)) (ordinals n) \<and>
         graceWarned w tr new)) \<and>
   (\<forall>e tr'. validateGanesha n = None \<and> createGanesha X c n w tr = (Some e, tr') \<longrightarrow>
      stoppedByApiCall w tr') \<and>
   (\<exists>new. deleteGanesha n w tr = (None, tr @ new) \<and>
      filter isGrace new = map (\<lambda>i. graceCommand n ''remove'' (identityOf i)) (ordinals n) \<and>
      filter isCall new = concat (map (deleteCalls n) (ordinals n)) \<and>
      graceWarned w tr new)"
proof (intro conjI impI allI)
  assume a: "validateGanesha n = None \<and> acceptsCreation w"
  let ?start = "Infof ''start running ganesha %s'' [NFS_Name n]"
  obtain new where l: "createGanesha_loop X c n w 0 (tr @ [?start]) = (None, (tr @ [?start]) @ new)"
    and g: "filter isGrace new =
        map (\<lambda>i. graceCommand n ''add'' (identityOf i)) [0..<nat (Active (Server (Spec n)))]"
    and gw: "graceWarned w (tr @ [?start]) new"
    using createGanesha_loop_accepts [of w X c n 0 "tr @ [?start]"] a by blast
  have "createGanesha X c n w tr = (None, tr @ (?start # new))"
    using a l by (simp add: createGanesha_def logf_def)
  moreover have "filter isGrace (?start # new) =
      map (\<lambda>i. graceCommand n ''add'' (identityOf i)) (ordinals n)"
    using g by (simp add: ordinals_def)
  moreover have "graceWarned w tr (?start # new)"
    using gw by simp
  ultimately show "\<exists>new. createGanesha X c n w tr = (None, tr @ new) \<and>
         filter isGrace new = map (\<lambda>i. graceCommand n ''add'' (identityOf i)) (ordinals n) \<and>
         graceWarned w tr new"
    by blast
next
  fix e tr'
  assume "validateGanesha n = None \<and> createGanesha X c n w tr = (Some e, tr')"
  then have v: "validateGanesha n = None"
    and cg: "createGanesha X c n w tr = (Some e, tr')"
    by simp_all
  have "createGanesha_loop X c n w 0
      (tr @ [Infof ''start running ganesha %s'' [NFS_Name n]]) = (Some e, tr')"
    using cg by (simp add: createGanesha_def logf_def v)
  then show "stoppedByApiCall w tr'" by (rule createGanesha_loop_error)
next
  show "\<exists>new. deleteGanesha n w tr = (None, tr @ new) \<and>
      filter isGrace new = map (\<lambda>i. graceCommand n ''remove'' (identityOf i)) (ordinals n) \<and>
      filter isCall new = concat (map (deleteCalls n) (ordinals n)) \<and>
      graceWarned w tr new"
    using deleteGanesha_loop_trace [of n w 0 tr]
    by (auto simp add: deleteGanesha_def ordinals_def)
qed

theorem C7_recovery_failures_tolerated_witness:
  "(\<exists>new. createGanesha examplePackages exampleController exampleGanesha alreadyThere [] =
        (None, new) \<and>
      filter isGrace new =
        [ExecuteCommand ''ganesha-rados-grace''
           [''--pool'', ''myfs-data0'', ''--ns'', ''nfs-ns'', ''add'', ''a''],
         ExecuteCommand ''ganesha-rados-grace''
           [''--pool'', ''myfs-data0'', ''--ns'', ''nfs-ns'', ''add'', ''b'']] \<and>
      graceWarned alreadyThere [] new) \<and>
   (\<exists>new. deleteGanesha exampleGanesha alreadyThere [] = (None, new) \<and>
      filter isGrace new =
        [ExecuteCommand ''ganesha-rados-grace''
           [''--pool'', ''myfs-data0'', ''--ns'', ''nfs-ns'', ''remove'', ''a''],
         ExecuteCommand ''ganesha-rados-grace''
           [''--pool'', ''myfs-data0'', ''--ns'', ''nfs-ns'', ''remove'', ''b'']] \<and>
      graceWarned alreadyThere [] new) \<and>
   answer alreadyThere []
     (ExecuteCommand ''ganesha-rados-grace''
        [''--pool'', ''myfs-data0'', ''--ns'', ''nfs-ns'', ''add'', ''a'']) \<noteq> None"
proof -
  note t = C7_recovery_failures_tolerated [of exampleGanesha alreadyThere examplePackages
      exampleController "[]"]
  have v: "validateGanesha exampleGanesha = None"
    by (simp add: validateGanesha_def exampleGanesha_def verifyExportExists_def)
  have adds: "map (\<lambda>i. graceCommand exampleGanesha ''add'' (identityOf i))
      (ordinals exampleGanesha) =
        [ExecuteCommand ''ganesha-rados-grace''
           [''--pool'', ''myfs-data0'', ''--ns'', ''nfs-ns'', ''add'', ''a''],
         ExecuteCommand ''ganesha-rados-grace''
           [''--pool'', ''myfs-data0'', ''--ns'', ''nfs-ns'', ''add'', ''b'']]"
    unfolding example_ordinals
    by (simp add: graceCommand_def example_identities exampleGanesha_def)
  have removes: "map (\<lambda>i. graceCommand exampleGanesha ''remove'' (identityOf i))
      (ordinals exampleGanesha) =
        [ExecuteCommand ''ganesha-rados-grace''
           [''--pool'', ''myfs-data0'', ''--ns'', ''nfs-ns'', ''remove'', ''a''],
         ExecuteCommand ''ganesha-rados-grace''
           [''--pool'', ''myfs-data0'', ''--ns'', ''nfs-ns'', ''remove'', ''b'']]"
    unfolding example_ordinals
    by (simp add: graceCommand_def example_identities exampleGanesha_def)
  have 1: "\<exists>new. createGanesha examplePackages exampleController exampleGanesha alreadyThere [] =
        (None, new) \<and>
      filter isGrace new =
        [ExecuteCommand ''ganesha-rados-grace''
           [''--pool'', ''myfs-data0'', ''--ns'', ''nfs-ns'', ''add'', ''a''],
         ExecuteCommand ''ganesha-rados-grace''
           [''--pool'', ''myfs-data0'', ''--ns'', ''nfs-ns'', ''add'', ''b'']] \<and>
      graceWarned alreadyThere [] new"
    using t v alreadyThere_accepts unfolding adds by simp
  have 2: "\<exists>new. deleteGanesha exampleGanesha alreadyThere [] = (None, new) \<and>
      filter isGrace new =
        [ExecuteCommand ''ganesha-rados-grace''
           [''--pool'', ''myfs-data0'', ''--ns'', ''nfs-ns'', ''remove'', ''a''],
         ExecuteCommand ''ganesha-rados-grace''
           [''--pool'', ''myfs-data0'', ''--ns'', ''nfs-ns'', ''remove'', ''b'']] \<and>
      graceWarned alreadyThere [] new"
    using t unfolding removes by auto
  have 3: "answer alreadyThere []
     (ExecuteCommand ''ganesha-rados-grace''
        [''--pool'', ''myfs-data0'', ''--ns'', ''nfs-ns'', ''add'', ''a'']) \<noteq> None"
    by (simp add: alreadyThere_def)
  show ?thesis using 1 2 3 by blast
qed

text \<open>
  Claim C8. A validation error is returned as it is and the trace is unchanged: no
  call has been made and nothing has been logged. This is what happens when the
  active count is zero, or when the name, the namespace, the store name, the
  client-recovery pool or namespace is empty, or when there is no export.
\<close>

theorem C8_validation_fail_fast:
  "(\<forall>err. validateGanesha n = Some err \<longrightarrow> createGanesha X c n w tr = (Some err, tr)) \<and>
   (Active (Server (Spec n)) = 0 \<or> NFS_Name n = [] \<or> NFS_Namespace n = [] \<or>
    Store_Name (Store (Spec n)) = [] \<or> Pool (ClientRecovery (Spec n)) = [] \<or>
    Recovery_Namespace (ClientRecovery (Spec n)) = [] \<or> Exports (Spec n) = [] \<longrightarrow>
      (\<exists>err. createGanesha X c n w tr = (Some err, tr)))"
proof (intro conjI allI impI)
  fix err
  assume "validateGanesha n = Some err"
  then show "createGanesha X c n w tr = (Some err, tr)"
    by (simp add: createGanesha_def)
next
  assume "Active (Server (Spec n)) = 0 \<or> NFS_Name n = [] \<or> NFS_Namespace n = [] \<or>
    Store_Name (Store (Spec n)) = [] \<or> Pool (ClientRecovery (Spec n)) = [] \<or>
    Recovery_Namespace (ClientRecovery (Spec n)) = [] \<or> Exports (Spec n) = []"
  then have "validateGanesha n \<noteq> None" by (rule validateGanesha_rejects)
  then obtain err where "validateGanesha n = Some err" by blast
  then have "createGanesha X c n w tr = (Some err, tr)"
    by (simp add: createGanesha_def)
  then show "\<exists>err. createGanesha X c n w tr = (Some err, tr)" by blast
qed

theorem C8_validation_fail_fast_witness:
  "createGanesha examplePackages exampleController noActiveServer alreadyThere [] =
     (Some (Errorf ''at least one active server required'' [] None), [])"
proof -
  have v: "validateGanesha noActiveServer =
      Some (Errorf ''at least one active server required'' [] None)"
    by (simp add: validateGanesha_def noActiveServer_def exampleGanesha_def
        verifyExportExists_def)
  show ?thesis
    using C8_validation_fail_fast [of noActiveServer examplePackages exampleController
        alreadyThere "[]"] v
    by simp
qed

text \<open>
  Claim C9. \<open>generateConfig\<close> creates the config map of the instance. When the
  creation succeeds it returns the name of the config map; when the creation
  answers already-exists it issues an update with the same, newly built config map
  and returns the name if the update succeeds, and the error \<open>failed to update
  ganesha config\<close> if it fails; any other failure of the creation is returned as
  \<open>failed to create ganesha config\<close>, without an update.
\<close>

theorem C9_config_already_exists:
  "(answer w tr (CreateConfigMap (NFS_Namespace n) (ganeshaConfigMap X n name)) = None \<longrightarrow>
      generateConfig X n name w tr =
        (Inr (instanceName n name),
         tr @ [CreateConfigMap (NFS_Namespace n) (ganeshaConfigMap X n name)])) \<and>
   (answer w tr (CreateConfigMap (NFS_Namespace n) (ganeshaConfigMap X n name)) =
      Some AlreadyExists \<longrightarrow>
      (case answer w (tr @ [CreateConfigMap (NFS_Namespace n) (ganeshaConfigMap X n name)])
              (UpdateConfigMap (NFS_Namespace n) (ganeshaConfigMap X n name)) of
         None \<Rightarrow>
           generateConfig X n name w tr =
             (Inr (instanceName n name),
              tr @ [CreateConfigMap (NFS_Namespace n) (ganeshaConfigMap X n name),
                    UpdateConfigMap (NFS_Namespace n) (ganeshaConfigMap X n name)])
       | Some err \<Rightarrow>
           generateConfig X n name w tr =
             (Inl (Errorf ''failed to update ganesha config. %+v'' [] (Some err)),
              tr @ [CreateConfigMap (NFS_Namespace n) (ganeshaConfigMap X n name),
                    UpdateConfigMap (NFS_Namespace n) (ganeshaConfigMap X n name)]))) \<and>
   (\<forall>err. answer w tr (CreateConfigMap (NFS_Namespace n) (ganeshaConfigMap X n name)) =
            Some err \<and> err \<noteq> AlreadyExists \<longrightarrow>
      generateConfig X n name w tr =
        (Inl (Errorf ''failed to create ganesha config. %+v'' [] (Some err)),
         tr @ [CreateConfigMap (NFS_Namespace n) (ganeshaConfigMap X n name)]))"
  by (simp add: generateConfig_cases Let_def ganeshaConfigMap_def instanceName_def
      split: option.splits)

theorem C9_config_already_exists_witness:
  "generateConfig examplePackages exampleGanesha ''a'' alreadyThere [] =
     (Inr ''rook-ceph-ganesha-my-nfs-a'',
      [CreateConfigMap ''rook-ceph'' (ganeshaConfigMap examplePackages exampleGanesha ''a''),
       UpdateConfigMap ''rook-ceph'' (ganeshaConfigMap examplePackages exampleGanesha ''a'')])"
proof -
  have a: "answer alreadyThere []
      (CreateConfigMap (NFS_Namespace exampleGanesha)
         (ganeshaConfigMap examplePackages exampleGanesha ''a'')) = Some AlreadyExists"
    "answer alreadyThere
      [CreateConfigMap (NFS_Namespace exampleGanesha)
         (ganeshaConfigMap examplePackages exampleGanesha ''a'')]
      (UpdateConfigMap (NFS_Namespace exampleGanesha)
         (ganeshaConfigMap examplePackages exampleGanesha ''a'')) = None"
    by (simp_all add: alreadyThere_def)
  have n: "NFS_Namespace exampleGanesha = ''rook-ceph''"
    "instanceName exampleGanesha ''a'' = ''rook-ceph-ganesha-my-nfs-a''"
    by (simp_all add: exampleGanesha_def instanceName_def nfs_appName_def)
  show ?thesis
    using C9_config_already_exists [of alreadyThere "[]" exampleGanesha examplePackages "''a''"]
      a
    by (simp add: n)
qed

end
